theory Spec2Isabelle
  imports Main
begin

section \<open>AccessiBridge: a shallow embedding of \<^verbatim>\<open>app.py\<close>\<close>

text \<open>
  The application is a Flask program: one view function per route, a SQLite file behind
  \<^verbatim>\<open>get_db\<close>, and one global handle \<^verbatim>\<open>gemini_model\<close> on the
  generative-AI client. Each view function becomes a HOL function from the request data,
  the global handle, the clock and the committed database to a response, the database
  after the request and the list of effects the view performed, in order.

  Conventions of the embedding.
  \<^item> A Python \<^verbatim>\<open>bytes\<close> value is a list of 8-bit characters. A Python
    \<^verbatim>\<open>str\<close> is held as the list of bytes of its UTF-8 encoding, so an ASCII
    string is itself.
  \<^item> An exception is a value of \<open>exn\<close>; what the view does with it (the
    \<^verbatim>\<open>except Exception\<close> arm, or none) is a branch of the model.
  \<^item> Failures of the environment (disk, lock, network outside the AI call) are not
    modelled; the AI call itself may fail, as its result type says.
\<close>

subsection \<open>Python strings\<close>

type_synonym bytes = "char list"

text \<open>\<^verbatim>\<open>str.lower\<close> on ASCII letters. A non-ASCII letter is left as it is; none
  of them lowers to a string of the extension lists used below (the only letter outside
  ASCII that lowers into ASCII is the Kelvin sign, to k).\<close>

definition lower_char :: "char \<Rightarrow> char" where
  "lower_char c =
     (if (65::nat) \<le> of_char c \<and> of_char c \<le> (90::nat) then char_of (of_char c + (32::nat)) else c)"

definition lower :: "string \<Rightarrow> string" where
  "lower s = map lower_char s"

text \<open>\<^verbatim>\<open>s.rsplit(sep, 1)\<close> for a one-character separator: at most one split,
  at the last occurrence.\<close>

definition rsplit1 :: "char \<Rightarrow> string \<Rightarrow> string list" where
  "rsplit1 sep s =
     (if sep \<in> set s
      then [rev (tl (dropWhile (\<lambda>c. c \<noteq> sep) (rev s))), rev (takeWhile (\<lambda>c. c \<noteq> sep) (rev s))]
      else [s])"

text \<open>List indexing \<^verbatim>\<open>xs[i]\<close> for \<open>i \<ge> 0\<close>; \<open>None\<close> stands for IndexError.\<close>

fun index :: "'a list \<Rightarrow> nat \<Rightarrow> 'a option" where
  "index [] i = None"
| "index (x # xs) 0 = Some x"
| "index (x # xs) (Suc i) = index xs i"

text \<open>The whitespace of \<^verbatim>\<open>str.split()\<close> inside ASCII: tab to carriage return,
  the four separators 28 to 31, and the space.\<close>

definition is_space :: "char \<Rightarrow> bool" where
  "is_space c =
     (let n = (of_char c :: nat) in (9 \<le> n \<and> n \<le> 13) \<or> (28 \<le> n \<and> n \<le> 32))"

text \<open>\<^verbatim>\<open>s.split()\<close>: the maximal runs of non-whitespace; \<open>cur\<close> is the run
  being read, reversed.\<close>

fun split_ws :: "string \<Rightarrow> string \<Rightarrow> string list" where
  "split_ws cur [] = (if cur = [] then [] else [rev cur])"
| "split_ws cur (c # cs) =
     (if is_space c
      then (if cur = [] then split_ws [] cs else rev cur # split_ws [] cs)
      else split_ws (c # cur) cs)"

fun join :: "string \<Rightarrow> string list \<Rightarrow> string" where
  "join sep [] = []"
| "join sep [x] = x"
| "join sep (x # y # ys) = x @ sep @ join sep (y # ys)"

text \<open>\<^verbatim>\<open>s.strip(chars)\<close>.\<close>

definition strip :: "string \<Rightarrow> string \<Rightarrow> string" where
  "strip chars s =
     rev (dropWhile (\<lambda>c. c \<in> set chars) (rev (dropWhile (\<lambda>c. c \<in> set chars) s)))"

text \<open>\<^verbatim>\<open>needle in s\<close> on strings: \<open>needle\<close> occurs as a contiguous
  substring.\<close>

fun starts_with :: "string \<Rightarrow> string \<Rightarrow> bool" where
  "starts_with [] s = True"
| "starts_with (p # ps) [] = False"
| "starts_with (p # ps) (c # cs) = (p = c \<and> starts_with ps cs)"

fun substring :: "string \<Rightarrow> string \<Rightarrow> bool" where
  "substring needle [] = (needle = [])"
| "substring needle (c # cs) = (starts_with needle (c # cs) \<or> substring needle cs)"

text \<open>\<^verbatim>\<open>str(n)\<close> for an integer: decimal digits, a minus sign when negative.\<close>

fun str_nat :: "nat \<Rightarrow> string" where
  "str_nat n =
     (if n < 10 then [char_of (48 + n)] else str_nat (n div 10) @ [char_of (48 + n mod 10)])"

definition str_int :: "int \<Rightarrow> string" where
  "str_int i = (if i < 0 then CHR ''-'' # str_nat (nat (- i)) else str_nat (nat i))"

subsection \<open>The extension allow-list and \<^verbatim>\<open>allowed_file\<close>\<close>

definition ALLOWED_EXTENSIONS :: "string set" where
  "ALLOWED_EXTENSIONS =
     {''png'', ''jpg'', ''jpeg'', ''gif'', ''webp'', ''pdf'', ''txt'', ''doc'', ''docx''}"

text \<open>\<^verbatim>\<open>'.' in filename and filename.rsplit('.', 1)[1].lower() in ALLOWED_EXTENSIONS\<close>.
  The \<^verbatim>\<open>and\<close> does not evaluate the index when there is no dot; with a dot the
  split has two parts, so the IndexError arm is never taken.\<close>

definition allowed_file :: "string \<Rightarrow> bool" where
  "allowed_file filename =
     (CHR ''.'' \<in> set filename \<and>
      (case index (rsplit1 (CHR ''.'') filename) 1 of
         Some e \<Rightarrow> lower e \<in> ALLOWED_EXTENSIONS
       | None \<Rightarrow> False))"

subsection \<open>\<^verbatim>\<open>werkzeug.utils.secure_filename\<close>\<close>

text \<open>
  The library function, on a POSIX host (\<^verbatim>\<open>os.sep\<close> is the slash, there is no
  \<^verbatim>\<open>os.path.altsep\<close> and no device-name check):
  \<^verbatim>\<open>
  filename = unicodedata.normalize("NFKD", filename)
  filename = filename.encode("ascii", "ignore").decode("ascii")
  filename = filename.replace("/", " ")
  filename = re.sub(r"[^A-Za-z0-9_.-]", "", "_".join(filename.split())).strip("._")
  \<close>
  The first line consults the Unicode decomposition tables, which are not part of the
  program: it is the parameter \<open>nfkd\<close>, an arbitrary function on strings, so that a
  statement about every file name holds whatever the tables say (the sign U+00BD for one
  half becomes the digits 1 and 2 around a fraction slash, an accented letter becomes the
  letter followed by a combining mark). On an ASCII name the normalisation changes nothing; the closed examples below
  use ASCII names and pass the identity. The second line keeps the ASCII characters:
  in the UTF-8 form of a string these are the bytes below 128.
\<close>

definition ascii_ignore :: "string \<Rightarrow> string" where
  "ascii_ignore s = filter (\<lambda>c. (of_char c :: nat) < 128) s"

definition filename_char :: "char \<Rightarrow> bool" where
  "filename_char c =
     (let n = (of_char c :: nat) in
        (65 \<le> n \<and> n \<le> 90) \<or> (97 \<le> n \<and> n \<le> 122) \<or> (48 \<le> n \<and> n \<le> 57) \<or>
        c = CHR ''_'' \<or> c = CHR ''.'' \<or> c = CHR ''-'')"

definition secure_filename :: "(string \<Rightarrow> string) \<Rightarrow> string \<Rightarrow> string" where
  "secure_filename nfkd filename =
     (let f0 = nfkd filename;
          f1 = ascii_ignore f0;
          f2 = map (\<lambda>c. if c = CHR ''/'' then CHR '' '' else c) f1;
          f3 = join ''_'' (split_ws [] f2);
          f4 = filter filename_char f3
      in strip ''._'' f4)"

subsection \<open>The prompt templates of \<^verbatim>\<open>api_describe_image\<close>\<close>

definition prompt_quick :: string where
  "prompt_quick =
     ''Describe this image in one clear, concise sentence. Focus on the main subject.''"

definition prompt_detailed :: string where
  "prompt_detailed =
     ''Provide a detailed, accessible description of this image for someone who cannot see it. Include:\<newline>'' @
     ''            1. Main subject and what's happening\<newline>'' @
     ''            2. Colors, shapes, and visual elements\<newline>'' @
     ''            3. Text visible in the image (if any)\<newline>'' @
     ''            4. Spatial relationships (left, right, foreground, background)\<newline>'' @
     ''            5. Emotional tone or mood\<newline>'' @
     ''            Be thorough but organized. Use clear, descriptive language.''"

definition prompt_navigation :: string where
  "prompt_navigation =
     ''Describe this image as if helping a blind person navigate or understand a physical space or document. Include:\<newline>'' @
     ''            1. Layout and structure\<newline>'' @
     ''            2. Any text, signs, or labels\<newline>'' @
     ''            3. Important objects and their positions\<newline>'' @
     ''            4. Potential hazards or obstacles (if applicable)\<newline>'' @
     ''            5. Key information for practical use''"

definition prompt_deafblind :: string where
  "prompt_deafblind =
     ''Describe this image in a simple, structured format for someone who is deafblind:\<newline>'' @
     ''            SUBJECT: [main subject in 5 words or less]\<newline>'' @
     ''            DESCRIPTION: [clear, simple description in 2-3 sentences]\<newline>'' @
     ''            TEXT: [any text visible, or \"none\"]\<newline>'' @
     ''            KEY DETAILS: [bullet points of important elements]''"

text \<open>The \<^verbatim>\<open>if mode == 'quick' ... elif ... else\<close> chain, in the source's order.
  There is no test for \<^verbatim>\<open>'deafblind'\<close>: it is the \<^verbatim>\<open>else\<close> arm.\<close>

definition describe_prompt :: "string \<Rightarrow> string" where
  "describe_prompt mode =
     (if mode = ''quick'' then prompt_quick
      else if mode = ''detailed'' then prompt_detailed
      else if mode = ''navigation'' then prompt_navigation
      else prompt_deafblind)"

subsection \<open>Exceptions\<close>

text \<open>The exceptions that the library calls of the views can raise. \<open>GenerationError\<close>
  is whatever the AI client raises, with its message.\<close>

datatype exn =
    TypeError
  | AttributeError
  | IndexError
  | KeyError
  | UnicodeDecodeError
  | OverflowError
  | ProgrammingError
  | IntegrityError
  | OperationalError
  | GenerationError string

subsection \<open>Decoded JSON bodies\<close>

text \<open>
  What \<^verbatim>\<open>request.get_json()\<close> hands to a view: \<open>JNull\<close> is Python's
  \<^verbatim>\<open>None\<close>, \<open>JObj\<close> a \<^verbatim>\<open>dict\<close> in insertion order (its keys are
  distinct), \<open>JArr\<close> a \<^verbatim>\<open>list\<close>. Numbers are the integers; a number with a
  fraction or an exponent is outside the model.
\<close>

datatype jval =
    JNull
  | JBool bool
  | JNum int
  | JStr string
  | JArr "jval list"
  | JObj "(string \<times> jval) list"

text \<open>Truth value of a Python object, as \<^verbatim>\<open>not data\<close> reads it.\<close>

fun truthy :: "jval \<Rightarrow> bool" where
  "truthy JNull = False"
| "truthy (JBool b) = b"
| "truthy (JNum n) = (n \<noteq> 0)"
| "truthy (JStr s) = (s \<noteq> [])"
| "truthy (JArr xs) = (xs \<noteq> [])"
| "truthy (JObj kvs) = (kvs \<noteq> [])"

text \<open>\<^verbatim>\<open>key in data\<close> for a string \<open>key\<close>: a key of a dict, an element of a list,
  a substring of a string; the other values are not iterable.\<close>

fun py_in :: "string \<Rightarrow> jval \<Rightarrow> exn + bool" where
  "py_in key (JObj kvs) = Inr (key \<in> fst ` set kvs)"
| "py_in key (JArr xs) = Inr (JStr key \<in> set xs)"
| "py_in key (JStr s) = Inr (substring key s)"
| "py_in key JNull = Inl TypeError"
| "py_in key (JBool b) = Inl TypeError"
| "py_in key (JNum n) = Inl TypeError"

text \<open>\<^verbatim>\<open>data[key]\<close> for a string \<open>key\<close>. The views subscript a dict only after
  \<^verbatim>\<open>key in data\<close>, so they never see the KeyError of a missing key. A list
  and a string take integer subscripts only.\<close>

fun subscript :: "jval \<Rightarrow> string \<Rightarrow> exn + jval" where
  "subscript (JObj kvs) key = (case map_of kvs key of Some v \<Rightarrow> Inr v | None \<Rightarrow> Inl KeyError)"
| "subscript v key = Inl TypeError"

text \<open>\<^verbatim>\<open>data.get(key, default)\<close>: only a dict has the method.\<close>

fun py_get :: "jval \<Rightarrow> string \<Rightarrow> jval \<Rightarrow> exn + jval" where
  "py_get (JObj kvs) key dflt = (case map_of kvs key of Some v \<Rightarrow> Inr v | None \<Rightarrow> Inr dflt)"
| "py_get v key dflt = Inl AttributeError"

text \<open>\<^verbatim>\<open>data.items()\<close>.\<close>

fun items :: "jval \<Rightarrow> exn + (string \<times> jval) list" where
  "items (JObj kvs) = Inr kvs"
| "items v = Inl AttributeError"

text \<open>\<^verbatim>\<open>str(value)\<close>, which is also what an f-string does with the value. The
  text of a list or dict is Python's \<^verbatim>\<open>repr\<close> of it, taken as the parameter
  \<open>repr\<close>.\<close>

fun py_str :: "(jval \<Rightarrow> string) \<Rightarrow> jval \<Rightarrow> string" where
  "py_str repr JNull = ''None''"
| "py_str repr (JBool b) = (if b then ''True'' else ''False'')"
| "py_str repr (JNum n) = str_int n"
| "py_str repr (JStr s) = s"
| "py_str repr (JArr xs) = repr (JArr xs)"
| "py_str repr (JObj kvs) = repr (JObj kvs)"

subsection \<open>Decoding bytes\<close>

text \<open>
  \<^verbatim>\<open>content.decode('utf-8')\<close> is the strict decoder: it accepts exactly the
  well-formed UTF-8 sequences (no overlong form, no surrogate, nothing above U+10FFFF) and
  raises UnicodeDecodeError on anything else. Since a \<^verbatim>\<open>str\<close> is held as
  its UTF-8 bytes, the decoded string of well-formed input is the input.
\<close>

definition continuation :: "char \<Rightarrow> bool" where
  "continuation c = ((128::nat) \<le> of_char c \<and> of_char c \<le> (191::nat))"

text \<open>The second byte of a three-byte and of a four-byte sequence, by the lead byte.\<close>

definition second_of_three :: "nat \<Rightarrow> char \<Rightarrow> bool" where
  "second_of_three lead c =
     (let n = (of_char c :: nat) in
        if lead = 224 then 160 \<le> n \<and> n \<le> 191
        else if lead = 237 then 128 \<le> n \<and> n \<le> 159
        else 128 \<le> n \<and> n \<le> 191)"

definition second_of_four :: "nat \<Rightarrow> char \<Rightarrow> bool" where
  "second_of_four lead c =
     (let n = (of_char c :: nat) in
        if lead = 240 then 144 \<le> n \<and> n \<le> 191
        else if lead = 244 then 128 \<le> n \<and> n \<le> 143
        else 128 \<le> n \<and> n \<le> 191)"

fun utf8_valid :: "bytes \<Rightarrow> bool" where
  "utf8_valid [] = True"
| "utf8_valid (b # bs) =
     (let n = (of_char b :: nat) in
        if n < 128 then utf8_valid bs
        else if 194 \<le> n \<and> n \<le> 223 then
          (case bs of c1 # r \<Rightarrow> continuation c1 \<and> utf8_valid r | _ \<Rightarrow> False)
        else if 224 \<le> n \<and> n \<le> 239 then
          (case bs of
             c1 # c2 # r \<Rightarrow> second_of_three n c1 \<and> continuation c2 \<and> utf8_valid r
           | _ \<Rightarrow> False)
        else if 240 \<le> n \<and> n \<le> 244 then
          (case bs of
             c1 # c2 # c3 # r \<Rightarrow>
               second_of_four n c1 \<and> continuation c2 \<and> continuation c3 \<and> utf8_valid r
           | _ \<Rightarrow> False)
        else False)"

text \<open>
  A string made from code points. In the UTF-8 form of strings a code point has a text
  when it is a Unicode scalar value, that is below the surrogates (U+D800 to U+DFFF) or
  above them up to U+10FFFF; one, two, three or four bytes by its size.
\<close>

definition utf8_of_point :: "nat \<Rightarrow> string option" where
  "utf8_of_point p =
     (if p < 128 then Some [char_of p]
      else if p < 2048 then Some [char_of (192 + p div 64), char_of (128 + p mod 64)]
      else if p < 55296 \<or> (57344 \<le> p \<and> p < 65536) then
        Some [char_of (224 + p div 4096), char_of (128 + p div 64 mod 64),
              char_of (128 + p mod 64)]
      else if 65536 \<le> p \<and> p < 1114112 then
        Some [char_of (240 + p div 262144), char_of (128 + p div 4096 mod 64),
              char_of (128 + p div 64 mod 64), char_of (128 + p mod 64)]
      else None)"

fun str_of_points :: "nat list \<Rightarrow> string option" where
  "str_of_points [] = Some []"
| "str_of_points (p # ps) =
     (case utf8_of_point p of
        None \<Rightarrow> None
      | Some s \<Rightarrow> (case str_of_points ps of None \<Rightarrow> None | Some t \<Rightarrow> Some (s @ t)))"

text \<open>
  \<^verbatim>\<open>content.decode('latin-1')\<close>: the byte with value \<open>n\<close> is the character
  with code point \<open>n\<close>. The decoder has no error of its own; the \<open>None\<close> arm below
  belongs to the representation of strings, and \<open>decode_latin1_total\<close> shows that no
  byte sequence takes it.
\<close>

datatype codec = UTF8 | Latin1

fun decode :: "codec \<Rightarrow> bytes \<Rightarrow> exn + string" where
  "decode UTF8 bs = (if utf8_valid bs then Inr bs else Inl UnicodeDecodeError)"
| "decode Latin1 bs =
     (case str_of_points (map of_char bs) of
        Some text \<Rightarrow> Inr text
      | None \<Rightarrow> Inl UnicodeDecodeError)"

subsection \<open>\<^verbatim>\<open>base64.b64encode\<close>\<close>

definition b64_alphabet :: string where
  "b64_alphabet = ''ABCDEFGHIJKLMNOPQRSTUVWXYZabcdefghijklmnopqrstuvwxyz0123456789+/''"

definition b64_digit :: "nat \<Rightarrow> char" where
  "b64_digit n = b64_alphabet ! (n mod 64)"

fun b64encode :: "bytes \<Rightarrow> string" where
  "b64encode [] = []"
| "b64encode [a] =
     (let n = of_char a * 65536 in
        [b64_digit (n div 262144), b64_digit (n div 4096), CHR ''='', CHR ''=''])"
| "b64encode [a, b] =
     (let n = of_char a * 65536 + of_char b * 256 in
        [b64_digit (n div 262144), b64_digit (n div 4096), b64_digit (n div 64), CHR ''=''])"
| "b64encode (a # b # c # rest) =
     (let n = of_char a * 65536 + of_char b * 256 + of_char c in
        [b64_digit (n div 262144), b64_digit (n div 4096), b64_digit (n div 64), b64_digit n]
        @ b64encode rest)"

subsection \<open>The AI client\<close>

text \<open>
  \<^verbatim>\<open>gemini_model.generate_content(parts)\<close> followed by \<^verbatim>\<open>response.text\<close>:
  one blocking call that returns the generated text or raises. The global
  \<^verbatim>\<open>gemini_model\<close> is \<open>None\<close> until \<^verbatim>\<open>init_gemini\<close> has configured
  it; a configured model object is truthy.
\<close>

datatype part = Text string | Blob string string

type_synonym gemini = "part list \<Rightarrow> exn + string"

subsection \<open>The tables of \<^verbatim>\<open>init_db\<close>\<close>

text \<open>
  A table is the list of its rows in rowid order, with the counter that
  \<^verbatim>\<open>AUTOINCREMENT\<close> keeps for it in \<^verbatim>\<open>sqlite_sequence\<close>. A
  \<^verbatim>\<open>TEXT\<close> column holds text, and \<open>None\<close> is \<^verbatim>\<open>NULL\<close> where the
  column allows it. \<^verbatim>\<open>CURRENT_TIMESTAMP\<close> is the clock in whole seconds.
  Rowids are not bounded in the model (SQLite stops at \<open>2\<^sup>6\<^sup>3 - 1\<close>).
\<close>

record image_description =
  idesc_id :: nat
  idesc_filename :: string
  idesc_description :: string
  idesc_created_at :: nat

record transcription =
  tr_id :: nat
  tr_text :: string
  tr_source :: "string option"
  tr_created_at :: nat

record user_preference =
  pref_id :: nat
  preference_key :: string
  preference_value :: string
  pref_updated_at :: nat

record saved_text =
  st_id :: nat
  st_title :: "string option"
  st_content :: string
  st_category :: "string option"
  st_created_at :: nat

record conversation_turn =
  ct_id :: nat
  ct_session_id :: string
  ct_speaker :: string
  ct_message :: string
  ct_message_type :: "string option"
  ct_created_at :: nat

record database =
  image_descriptions :: "image_description list"
  seq_image_descriptions :: nat
  transcriptions :: "transcription list"
  seq_transcriptions :: nat
  user_preferences :: "user_preference list"
  seq_user_preferences :: nat
  saved_texts :: "saved_text list"
  seq_saved_texts :: nat
  conversation_history :: "conversation_turn list"
  seq_conversation_history :: nat

text \<open>The state after \<^verbatim>\<open>init_db\<close> on a fresh file.\<close>

definition init_db :: database where
  "init_db =
     \<lparr>image_descriptions = [], seq_image_descriptions = 0,
      transcriptions = [], seq_transcriptions = 0,
      user_preferences = [], seq_user_preferences = 0,
      saved_texts = [], seq_saved_texts = 0,
      conversation_history = [], seq_conversation_history = 0\<rparr>"

text \<open>\<^verbatim>\<open>INTEGER PRIMARY KEY AUTOINCREMENT\<close>: one more than the largest rowid the
  table has ever held.\<close>

definition next_id :: "nat \<Rightarrow> nat list \<Rightarrow> nat" where
  "next_id seq ids = Suc (fold max ids seq)"

subsection \<open>Binding parameters\<close>

text \<open>
  What \<^verbatim>\<open>db.execute(sql, params)\<close> does with one parameter that goes into a
  \<^verbatim>\<open>TEXT\<close> column: \<^verbatim>\<open>None\<close> is \<^verbatim>\<open>NULL\<close>, a string is itself, an
  integer (a \<^verbatim>\<open>bool\<close> is one) must fit 64 bits and is stored as its decimal text,
  a list or a dict cannot be bound.
\<close>

definition fits_int64 :: "int \<Rightarrow> bool" where
  "fits_int64 n = (- (2 ^ 63) \<le> n \<and> n < 2 ^ 63)"

fun bind_text :: "jval \<Rightarrow> exn + string option" where
  "bind_text JNull = Inr None"
| "bind_text (JBool b) = Inr (Some (if b then ''1'' else ''0''))"
| "bind_text (JNum n) = (if fits_int64 n then Inr (Some (str_int n)) else Inl OverflowError)"
| "bind_text (JStr s) = Inr (Some s)"
| "bind_text (JArr xs) = Inl ProgrammingError"
| "bind_text (JObj kvs) = Inl ProgrammingError"

text \<open>The parameters of a statement are bound in order; the first that fails raises.\<close>

fun bind_all :: "jval list \<Rightarrow> exn + string option list" where
  "bind_all [] = Inr []"
| "bind_all (v # vs) =
     (case bind_text v of
        Inl e \<Rightarrow> Inl e
      | Inr x \<Rightarrow> (case bind_all vs of Inl e \<Rightarrow> Inl e | Inr xs \<Rightarrow> Inr (x # xs)))"

text \<open>An integer parameter, as the id of \<^verbatim>\<open>WHERE id = ?\<close>.\<close>

definition bind_int :: "int \<Rightarrow> exn + int" where
  "bind_int n = (if fits_int64 n then Inr n else Inl OverflowError)"

subsection \<open>The statements\<close>

text \<open>\<^verbatim>\<open>INSERT INTO image_descriptions (filename, description) VALUES (?, ?)\<close>
  with two strings.\<close>

definition insert_image_description :: "string \<Rightarrow> string \<Rightarrow> nat \<Rightarrow> database \<Rightarrow> database" where
  "insert_image_description fname description now db =
     (let i = next_id (seq_image_descriptions db) (map idesc_id (image_descriptions db)) in
        db\<lparr>image_descriptions := image_descriptions db @
               [\<lparr>idesc_id = i, idesc_filename = fname, idesc_description = description,
                 idesc_created_at = now\<rparr>],
           seq_image_descriptions := i\<rparr>)"

text \<open>\<^verbatim>\<open>INSERT INTO transcriptions (text, source) VALUES (?, ?)\<close>. Both columns
  are given, so the column default of \<^verbatim>\<open>source\<close> is not used;
  \<^verbatim>\<open>text\<close> is \<^verbatim>\<open>NOT NULL\<close>.\<close>

definition insert_transcription :: "jval \<Rightarrow> jval \<Rightarrow> nat \<Rightarrow> database \<Rightarrow> exn + database" where
  "insert_transcription text source now db =
     (case bind_all [text, source] of
        Inr [Some t, s] \<Rightarrow>
          (let i = next_id (seq_transcriptions db) (map tr_id (transcriptions db)) in
             Inr (db\<lparr>transcriptions := transcriptions db @
                        [\<lparr>tr_id = i, tr_text = t, tr_source = s, tr_created_at = now\<rparr>],
                      seq_transcriptions := i\<rparr>))
      | Inr _ \<Rightarrow> Inl IntegrityError
      | Inl e \<Rightarrow> Inl e)"

text \<open>\<^verbatim>\<open>INSERT INTO saved_texts (title, content, category) VALUES (?, ?, ?)\<close>;
  \<^verbatim>\<open>content\<close> is \<^verbatim>\<open>NOT NULL\<close>.\<close>

definition insert_saved_text :: "jval \<Rightarrow> jval \<Rightarrow> jval \<Rightarrow> nat \<Rightarrow> database \<Rightarrow> exn + database" where
  "insert_saved_text title content category now db =
     (case bind_all [title, content, category] of
        Inr [t, Some c, g] \<Rightarrow>
          (let i = next_id (seq_saved_texts db) (map st_id (saved_texts db)) in
             Inr (db\<lparr>saved_texts := saved_texts db @
                        [\<lparr>st_id = i, st_title = t, st_content = c, st_category = g,
                          st_created_at = now\<rparr>],
                      seq_saved_texts := i\<rparr>))
      | Inr _ \<Rightarrow> Inl IntegrityError
      | Inl e \<Rightarrow> Inl e)"

text \<open>\<^verbatim>\<open>INSERT INTO conversation_history (session_id, speaker, message, message_type)
  VALUES (?, ?, ?, ?)\<close>; the first three columns are \<^verbatim>\<open>NOT NULL\<close>.\<close>

definition insert_conversation ::
  "jval \<Rightarrow> jval \<Rightarrow> jval \<Rightarrow> jval \<Rightarrow> nat \<Rightarrow> database \<Rightarrow> exn + database" where
  "insert_conversation session_id speaker message message_type now db =
     (case bind_all [session_id, speaker, message, message_type] of
        Inr [Some s, Some p, Some m, t] \<Rightarrow>
          (let i = next_id (seq_conversation_history db) (map ct_id (conversation_history db)) in
             Inr (db\<lparr>conversation_history := conversation_history db @
                        [\<lparr>ct_id = i, ct_session_id = s, ct_speaker = p, ct_message = m,
                          ct_message_type = t, ct_created_at = now\<rparr>],
                      seq_conversation_history := i\<rparr>))
      | Inr _ \<Rightarrow> Inl IntegrityError
      | Inl e \<Rightarrow> Inl e)"

text \<open>
  \<^verbatim>\<open>INSERT OR REPLACE INTO user_preferences (preference_key, preference_value,
  updated_at) VALUES (?, ?, CURRENT_TIMESTAMP)\<close> with two strings. The key column is
  \<^verbatim>\<open>UNIQUE\<close>: \<^verbatim>\<open>OR REPLACE\<close> deletes the rows that hold the key and then
  inserts the new row, under a fresh id.
\<close>

definition upsert_preference :: "string \<Rightarrow> string \<Rightarrow> nat \<Rightarrow> database \<Rightarrow> database" where
  "upsert_preference key val now db =
     (let i = next_id (seq_user_preferences db) (map pref_id (user_preferences db)) in
        db\<lparr>user_preferences :=
             filter (\<lambda>r. preference_key r \<noteq> key) (user_preferences db) @
               [\<lparr>pref_id = i, preference_key = key, preference_value = val,
                 pref_updated_at = now\<rparr>],
           seq_user_preferences := i\<rparr>)"

text \<open>\<^verbatim>\<open>DELETE FROM {table} WHERE id = ?\<close> with the table name put into the
  statement text. A name that is no table of the file is an OperationalError.\<close>

definition delete_from :: "string \<Rightarrow> int \<Rightarrow> database \<Rightarrow> exn + database" where
  "delete_from table i db =
     (if table = ''image_descriptions'' then
        Inr (db\<lparr>image_descriptions := filter (\<lambda>r. int (idesc_id r) \<noteq> i) (image_descriptions db)\<rparr>)
      else if table = ''transcriptions'' then
        Inr (db\<lparr>transcriptions := filter (\<lambda>r. int (tr_id r) \<noteq> i) (transcriptions db)\<rparr>)
      else if table = ''saved_texts'' then
        Inr (db\<lparr>saved_texts := filter (\<lambda>r. int (st_id r) \<noteq> i) (saved_texts db)\<rparr>)
      else if table = ''user_preferences'' then
        Inr (db\<lparr>user_preferences := filter (\<lambda>r. int (pref_id r) \<noteq> i) (user_preferences db)\<rparr>)
      else if table = ''conversation_history'' then
        Inr (db\<lparr>conversation_history := filter (\<lambda>r. int (ct_id r) \<noteq> i) (conversation_history db)\<rparr>)
      else Inl OperationalError)"

text \<open>
  \<^verbatim>\<open>SELECT * FROM t ORDER BY created_at DESC LIMIT 50\<close>. The rows come out by
  descending timestamp. SQL leaves the order of rows with equal timestamps open; SQLite
  sorts the rows of its table scan, so equal timestamps come out in rowid order, which is
  what \<open>insert_desc\<close> does.
\<close>

fun insert_desc :: "('a \<Rightarrow> nat) \<Rightarrow> 'a \<Rightarrow> 'a list \<Rightarrow> 'a list" where
  "insert_desc key x [] = [x]"
| "insert_desc key x (y # ys) =
     (if key y < key x then x # y # ys else y # insert_desc key x ys)"

definition order_by_desc :: "('a \<Rightarrow> nat) \<Rightarrow> 'a list \<Rightarrow> 'a list" where
  "order_by_desc key rows = fold (insert_desc key) rows []"

definition select_recent :: "('a \<Rightarrow> nat) \<Rightarrow> 'a list \<Rightarrow> 'a list" where
  "select_recent key rows = take 50 (order_by_desc key rows)"

subsection \<open>Requests, responses and effects\<close>

text \<open>An uploaded file of \<^verbatim>\<open>request.files\<close>: the name the client sent, the
  content type of the part if it sent one, and the bytes.\<close>

record upload =
  filename :: string
  content_type :: "string option"
  content :: bytes

text \<open>
  What a view returns. \<open>Ok\<close> is \<^verbatim>\<open>jsonify(...)\<close> with status 200,
  \<open>ClientError\<close> is \<^verbatim>\<open>jsonify({'error': msg}), 400\<close>, \<open>ServerError\<close> is
  the \<^verbatim>\<open>except Exception\<close> arm \<^verbatim>\<open>jsonify({'error': str(e)}), 500\<close>,
  and \<open>Unhandled\<close> is an exception that leaves the view, which Flask answers with
  status 500. \<open>Page\<close> is \<^verbatim>\<open>render_template\<close> with the
  \<^verbatim>\<open>gemini_available\<close> flag where the view passes one.
\<close>

datatype response =
    Ok "(string \<times> jval) list"
  | ClientError string
  | ServerError exn
  | Unhandled exn
  | Page string "bool option"
  | SavedContentPage "image_description list" "transcription list" "saved_text list"

fun status :: "response \<Rightarrow> nat" where
  "status (Ok body) = 200"
| "status (ClientError msg) = 400"
| "status (ServerError e) = 500"
| "status (Unhandled e) = 500"
| "status (Page name flag) = 200"
| "status (SavedContentPage ds ts ss) = 200"

text \<open>The calls a view makes to its collaborators, in order: the upload stream, the AI
  client, and the database connection (open, statements by table name, commit, close).\<close>

datatype event =
    ReadUpload
  | Generate "part list"
  | Connect
  | Select string
  | Insert string
  | Upsert string
  | Delete string
  | Commit
  | Close

type_synonym result = "response \<times> database \<times> event list"

definition success :: "(string \<times> jval) list" where
  "success = [(''success'', JBool True)]"

subsection \<open>The page views\<close>

definition index_page :: "gemini option \<Rightarrow> database \<Rightarrow> result" where
  "index_page gemini_model db = (Page ''index.html'' (Some (gemini_model \<noteq> None)), db, [])"

definition image_describer :: "gemini option \<Rightarrow> database \<Rightarrow> result" where
  "image_describer gemini_model db =
     (Page ''image_describer.html'' (Some (gemini_model \<noteq> None)), db, [])"

definition speech_to_text :: "database \<Rightarrow> result" where
  "speech_to_text db = (Page ''speech_to_text.html'' None, db, [])"

definition text_to_speech :: "database \<Rightarrow> result" where
  "text_to_speech db = (Page ''text_to_speech.html'' None, db, [])"

definition communication_bridge :: "database \<Rightarrow> result" where
  "communication_bridge db = (Page ''communication_bridge.html'' None, db, [])"

definition document_reader :: "gemini option \<Rightarrow> database \<Rightarrow> result" where
  "document_reader gemini_model db =
     (Page ''document_reader.html'' (Some (gemini_model \<noteq> None)), db, [])"

definition saved_content :: "database \<Rightarrow> result" where
  "saved_content db =
     (SavedContentPage
        (select_recent idesc_created_at (image_descriptions db))
        (select_recent tr_created_at (transcriptions db))
        (select_recent st_created_at (saved_texts db)),
      db,
      [Connect, Select ''image_descriptions'', Select ''transcriptions'',
       Select ''saved_texts'', Close])"

subsection \<open>\<^verbatim>\<open>api_describe_image\<close>\<close>

text \<open>\<^verbatim>\<open>file.content_type or 'image/jpeg'\<close>.\<close>

definition mime_or_jpeg :: "string option \<Rightarrow> string" where
  "mime_or_jpeg ct = (case ct of None \<Rightarrow> ''image/jpeg'' | Some t \<Rightarrow> if t = [] then ''image/jpeg'' else t)"

definition api_describe_image ::
  "gemini option \<Rightarrow> (string \<Rightarrow> string) \<Rightarrow> upload option \<Rightarrow> string option \<Rightarrow> nat \<Rightarrow>
   database \<Rightarrow> result" where
  "api_describe_image gemini_model nfkd image_part mode_field now db =
     (case gemini_model of
        None \<Rightarrow>
          (ClientError ''Gemini API not configured. Please set GEMINI_API_KEY environment variable.'',
           db, [])
      | Some model \<Rightarrow>
          (case image_part of
             None \<Rightarrow> (ClientError ''No image provided'', db, [])
           | Some file \<Rightarrow>
               if filename file = [] then (ClientError ''No image selected'', db, [])
               else if \<not> allowed_file (filename file) then (ClientError ''Invalid file type'', db, [])
               else
                 (let image_data = content file;
                      mode = (case mode_field of None \<Rightarrow> ''detailed'' | Some m \<Rightarrow> m);
                      prompt = describe_prompt mode;
                      parts = [Text prompt,
                               Blob (mime_or_jpeg (content_type file)) (b64encode image_data)]
                  in case model parts of
                       Inl e \<Rightarrow> (ServerError e, db, [ReadUpload, Generate parts])
                     | Inr description \<Rightarrow>
                         (Ok [(''success'', JBool True), (''description'', JStr description),
                              (''mode'', JStr mode)],
                          insert_image_description (secure_filename nfkd (filename file)) description
                            now db,
                          [ReadUpload, Generate parts, Connect, Insert ''image_descriptions'',
                           Commit, Close]))))"

subsection \<open>\<^verbatim>\<open>api_save_transcription\<close> and \<^verbatim>\<open>api_save_text\<close>\<close>

text \<open>
  The test \<^verbatim>\<open>not data or 'text' not in data\<close> stands before the
  \<^verbatim>\<open>try\<close>, so a body that is not iterable leaves the view with its TypeError.
  Inside the \<^verbatim>\<open>try\<close> the connection is opened first and the tuple of
  parameters is built left to right.
\<close>

definition api_save_transcription :: "jval \<Rightarrow> nat \<Rightarrow> database \<Rightarrow> result" where
  "api_save_transcription data now db =
     (if \<not> truthy data then (ClientError ''No text provided'', db, [])
      else case py_in ''text'' data of
        Inl e \<Rightarrow> (Unhandled e, db, [])
      | Inr False \<Rightarrow> (ClientError ''No text provided'', db, [])
      | Inr True \<Rightarrow>
          (case subscript data ''text'' of
             Inl e \<Rightarrow> (ServerError e, db, [Connect])
           | Inr text \<Rightarrow>
               (case py_get data ''source'' (JStr ''speech'') of
                  Inl e \<Rightarrow> (ServerError e, db, [Connect])
                | Inr source \<Rightarrow>
                    (case insert_transcription text source now db of
                       Inl e \<Rightarrow> (ServerError e, db, [Connect, Insert ''transcriptions''])
                     | Inr db' \<Rightarrow>
                         (Ok success, db', [Connect, Insert ''transcriptions'', Commit, Close])))))"

definition api_save_text :: "jval \<Rightarrow> nat \<Rightarrow> database \<Rightarrow> result" where
  "api_save_text data now db =
     (if \<not> truthy data then (ClientError ''No content provided'', db, [])
      else case py_in ''content'' data of
        Inl e \<Rightarrow> (Unhandled e, db, [])
      | Inr False \<Rightarrow> (ClientError ''No content provided'', db, [])
      | Inr True \<Rightarrow>
          (case py_get data ''title'' (JStr ''Untitled'') of
             Inl e \<Rightarrow> (ServerError e, db, [Connect])
           | Inr title \<Rightarrow>
               (case subscript data ''content'' of
                  Inl e \<Rightarrow> (ServerError e, db, [Connect])
                | Inr body \<Rightarrow>
                    (case py_get data ''category'' (JStr ''general'') of
                       Inl e \<Rightarrow> (ServerError e, db, [Connect])
                     | Inr category \<Rightarrow>
                         (case insert_saved_text title body category now db of
                            Inl e \<Rightarrow> (ServerError e, db, [Connect, Insert ''saved_texts''])
                          | Inr db' \<Rightarrow>
                              (Ok success, db',
                               [Connect, Insert ''saved_texts'', Commit, Close]))))))"

subsection \<open>\<^verbatim>\<open>api_extract_document\<close>\<close>

definition extract_prompt :: string where
  "extract_prompt =
     ''Extract all text from this document. Preserve the structure and formatting as much as possible. If it's an image, describe any visual elements along with the text.''"

text \<open>\<^verbatim>\<open>filename.rsplit('.', 1)[1].lower() if '.' in filename else ''\<close>.\<close>

definition extension :: "string \<Rightarrow> exn + string" where
  "extension fname =
     (if CHR ''.'' \<in> set fname
      then (case index (rsplit1 (CHR ''.'') fname) 1 of
              Some e \<Rightarrow> Inr (lower e)
            | None \<Rightarrow> Inl IndexError)
      else Inr [])"

text \<open>The text branch: \<^verbatim>\<open>try: content.decode('utf-8')\<close>, and on any exception
  \<^verbatim>\<open>content.decode('latin-1')\<close>, whose own failure would reach the outer
  \<^verbatim>\<open>except\<close>.\<close>

definition decode_text :: "bytes \<Rightarrow> exn + string" where
  "decode_text bs = (case decode UTF8 bs of Inr text \<Rightarrow> Inr text | Inl e \<Rightarrow> decode Latin1 bs)"

definition api_extract_document ::
  "gemini option \<Rightarrow> (string \<Rightarrow> string) \<Rightarrow> upload option \<Rightarrow> database \<Rightarrow> result" where
  "api_extract_document gemini_model nfkd document db =
     (case document of
        None \<Rightarrow> (ClientError ''No document provided'', db, [])
      | Some file \<Rightarrow>
          if filename file = [] then (ClientError ''No document selected'', db, [])
          else
            (case extension (secure_filename nfkd (filename file)) of
               Inl e \<Rightarrow> (ServerError e, db, [ReadUpload])
             | Inr ext \<Rightarrow>
                 if ext = ''txt'' then
                   (case decode_text (content file) of
                      Inl e \<Rightarrow> (ServerError e, db, [ReadUpload])
                    | Inr text \<Rightarrow>
                        (Ok [(''success'', JBool True), (''text'', JStr text),
                             (''method'', JStr ''direct'')], db, [ReadUpload]))
                 else
                   (case gemini_model of
                      Some model \<Rightarrow>
                        if ext \<in> set [''pdf'', ''png'', ''jpg'', ''jpeg''] then
                          (let mime_type = (if ext = ''pdf'' then ''application/pdf'' else ''image/'' @ ext);
                               parts = [Text extract_prompt, Blob mime_type (b64encode (content file))]
                           in case model parts of
                                Inl e \<Rightarrow> (ServerError e, db, [ReadUpload, Generate parts])
                              | Inr text \<Rightarrow>
                                  (Ok [(''success'', JBool True), (''text'', JStr text),
                                       (''method'', JStr ''gemini'')], db,
                                   [ReadUpload, Generate parts]))
                        else (ClientError ''Unsupported file type or Gemini not available'', db,
                              [ReadUpload])
                    | None \<Rightarrow> (ClientError ''Unsupported file type or Gemini not available'', db,
                               [ReadUpload]))))"

subsection \<open>\<^verbatim>\<open>api_conversation\<close>\<close>

definition api_conversation :: "jval \<Rightarrow> nat \<Rightarrow> database \<Rightarrow> result" where
  "api_conversation data now db =
     (if \<not> truthy data then (ClientError ''No data provided'', db, [])
      else
        (case py_get data ''session_id'' (JStr ''default'') of
           Inl e \<Rightarrow> (ServerError e, db, [Connect])
         | Inr session_id \<Rightarrow>
             (case py_get data ''speaker'' (JStr ''unknown'') of
                Inl e \<Rightarrow> (ServerError e, db, [Connect])
              | Inr speaker \<Rightarrow>
                  (case py_get data ''message'' (JStr []) of
                     Inl e \<Rightarrow> (ServerError e, db, [Connect])
                   | Inr message \<Rightarrow>
                       (case py_get data ''message_type'' (JStr ''text'') of
                          Inl e \<Rightarrow> (ServerError e, db, [Connect])
                        | Inr message_type \<Rightarrow>
                            (case insert_conversation session_id speaker message message_type now db of
                               Inl e \<Rightarrow> (ServerError e, db, [Connect, Insert ''conversation_history''])
                             | Inr db' \<Rightarrow>
                                 (Ok success, db',
                                  [Connect, Insert ''conversation_history'', Commit, Close])))))))"

subsection \<open>\<^verbatim>\<open>api_simplify_text\<close>\<close>

definition simplify_prompt :: string where
  "simplify_prompt =
     ''Simplify the following text for someone who is deafblind. Use:\<newline>'' @
     ''        - Short, clear sentences\<newline>'' @
     ''        - Simple vocabulary\<newline>'' @
     ''        - Structured format with clear sections\<newline>'' @
     ''        - No idioms or complex metaphors\<newline>'' @
     ''\<newline>'' @
     ''        Text to simplify:\<newline>'' @
     ''        ''"

definition api_simplify_text ::
  "gemini option \<Rightarrow> (jval \<Rightarrow> string) \<Rightarrow> jval \<Rightarrow> database \<Rightarrow> result" where
  "api_simplify_text gemini_model repr data db =
     (case gemini_model of
        None \<Rightarrow> (ClientError ''Gemini API not available'', db, [])
      | Some model \<Rightarrow>
          if \<not> truthy data then (ClientError ''No text provided'', db, [])
          else
            (case py_in ''text'' data of
               Inl e \<Rightarrow> (Unhandled e, db, [])
             | Inr False \<Rightarrow> (ClientError ''No text provided'', db, [])
             | Inr True \<Rightarrow>
                 (case subscript data ''text'' of
                    Inl e \<Rightarrow> (ServerError e, db, [])
                  | Inr text \<Rightarrow>
                      (let parts = [Text (simplify_prompt @ py_str repr text)] in
                         case model parts of
                           Inl e \<Rightarrow> (ServerError e, db, [Generate parts])
                         | Inr simplified \<Rightarrow>
                             (Ok [(''success'', JBool True), (''simplified'', JStr simplified)],
                              db, [Generate parts])))))"

subsection \<open>\<^verbatim>\<open>api_preferences\<close>\<close>

text \<open>
  The view opens the connection before it looks at the method. Every method but
  \<^verbatim>\<open>GET\<close> takes the second arm. There is no \<^verbatim>\<open>try\<close>: the loop runs
  one statement for each item of the body, then one commit. Keys and
  \<^verbatim>\<open>str(value)\<close> are strings, so no statement of the loop fails.
\<close>

definition upsert_all :: "(jval \<Rightarrow> string) \<Rightarrow> (string \<times> jval) list \<Rightarrow> nat \<Rightarrow> database \<Rightarrow> database" where
  "upsert_all repr kvs now db = fold (\<lambda>(key, val). upsert_preference key (py_str repr val) now) kvs db"

definition api_preferences ::
  "string \<Rightarrow> (jval \<Rightarrow> string) \<Rightarrow> jval \<Rightarrow> nat \<Rightarrow> database \<Rightarrow> result" where
  "api_preferences method repr data now db =
     (if method = ''GET'' then
        (Ok (map (\<lambda>row. (preference_key row, JStr (preference_value row))) (user_preferences db)),
         db, [Connect, Select ''user_preferences'', Close])
      else if \<not> truthy data then (ClientError ''No data provided'', db, [Connect])
      else
        (case items data of
           Inl e \<Rightarrow> (Unhandled e, db, [Connect])
         | Inr kvs \<Rightarrow>
             (Ok success, upsert_all repr kvs now db,
              [Connect] @ map (\<lambda>kv. Upsert ''user_preferences'') kvs @ [Commit, Close])))"

subsection \<open>\<^verbatim>\<open>api_delete_item\<close>\<close>

definition allowed_tables :: "string list" where
  "allowed_tables = [''image_descriptions'', ''transcriptions'', ''saved_texts'']"

text \<open>The route is \<^verbatim>\<open>/api/delete/<table>/<int:id>\<close>: the converter accepts any
  run of digits, so \<open>id\<close> is any natural number.\<close>

definition api_delete_item :: "string \<Rightarrow> nat \<Rightarrow> database \<Rightarrow> result" where
  "api_delete_item table ident db =
     (if table \<notin> set allowed_tables then (ClientError ''Invalid table'', db, [])
      else
        (case bind_int (int ident) of
           Inl e \<Rightarrow> (ServerError e, db, [Connect, Delete table])
         | Inr i \<Rightarrow>
             (case delete_from table i db of
                Inl e \<Rightarrow> (ServerError e, db, [Connect, Delete table])
              | Inr db' \<Rightarrow> (Ok success, db', [Connect, Delete table, Commit, Close]))))"

subsection \<open>The routes\<close>

datatype request =
    GET_index
  | GET_image_describer
  | GET_speech_to_text
  | GET_text_to_speech
  | GET_communication_bridge
  | GET_document_reader
  | GET_saved_content
  | POST_describe_image "upload option" "string option"
  | POST_save_transcription jval
  | POST_save_text jval
  | POST_extract_document "upload option"
  | POST_conversation jval
  | POST_simplify_text jval
  | Preferences string jval
  | DELETE_item string nat

text \<open>What a request sees of the process: the AI handle, the clock, Python's
  \<^verbatim>\<open>repr\<close> of containers and the Unicode normalisation.\<close>

record env =
  gemini_model :: "gemini option"
  clock :: nat
  py_repr :: "jval \<Rightarrow> string"
  unicode_nfkd :: "string \<Rightarrow> string"

fun handle :: "env \<Rightarrow> request \<Rightarrow> database \<Rightarrow> result" where
  "handle E GET_index db = index_page (gemini_model E) db"
| "handle E GET_image_describer db = image_describer (gemini_model E) db"
| "handle E GET_speech_to_text db = speech_to_text db"
| "handle E GET_text_to_speech db = text_to_speech db"
| "handle E GET_communication_bridge db = communication_bridge db"
| "handle E GET_document_reader db = document_reader (gemini_model E) db"
| "handle E GET_saved_content db = saved_content db"
| "handle E (POST_describe_image f m) db =
     api_describe_image (gemini_model E) (unicode_nfkd E) f m (clock E) db"
| "handle E (POST_save_transcription d) db = api_save_transcription d (clock E) db"
| "handle E (POST_save_text d) db = api_save_text d (clock E) db"
| "handle E (POST_extract_document f) db =
     api_extract_document (gemini_model E) (unicode_nfkd E) f db"
| "handle E (POST_conversation d) db = api_conversation d (clock E) db"
| "handle E (POST_simplify_text d) db = api_simplify_text (gemini_model E) (py_repr E) d db"
| "handle E (Preferences m d) db = api_preferences m (py_repr E) d (clock E) db"
| "handle E (DELETE_item t i) db = api_delete_item t i db"

subsection \<open>Counting effects\<close>

definition is_ai_call :: "event \<Rightarrow> bool" where
  "is_ai_call ev = (case ev of Generate parts \<Rightarrow> True | _ \<Rightarrow> False)"

definition is_write :: "event \<Rightarrow> bool" where
  "is_write ev = (case ev of Insert t \<Rightarrow> True | Upsert t \<Rightarrow> True | Delete t \<Rightarrow> True | _ \<Rightarrow> False)"

definition is_db_event :: "event \<Rightarrow> bool" where
  "is_db_event ev = (case ev of ReadUpload \<Rightarrow> False | Generate parts \<Rightarrow> False | _ \<Rightarrow> True)"

definition ai_calls :: "event list \<Rightarrow> nat" where
  "ai_calls evs = length (filter is_ai_call evs)"

definition writes :: "event list \<Rightarrow> nat" where
  "writes evs = length (filter is_write evs)"

definition commits :: "event list \<Rightarrow> nat" where
  "commits evs = length (filter (\<lambda>ev. ev = Commit) evs)"

subsection \<open>Reading the state\<close>

text \<open>The ids held by a table that \<^verbatim>\<open>api_delete_item\<close> may name.\<close>

definition table_ids :: "string \<Rightarrow> database \<Rightarrow> nat list" where
  "table_ids table db =
     (if table = ''image_descriptions'' then map idesc_id (image_descriptions db)
      else if table = ''transcriptions'' then map tr_id (transcriptions db)
      else if table = ''saved_texts'' then map st_id (saved_texts db)
      else [])"

text \<open>The rows of \<^verbatim>\<open>user_preferences\<close> that hold a key, as key and value.\<close>

definition preference_rows :: "string \<Rightarrow> database \<Rightarrow> (string \<times> string) list" where
  "preference_rows key db =
     map (\<lambda>r. (preference_key r, preference_value r))
       (filter (\<lambda>r. preference_key r = key) (user_preferences db))"

text \<open>The database a view leaves behind, and its effects.\<close>

definition db_after :: "result \<Rightarrow> database" where
  "db_after r = fst (snd r)"

definition effects :: "result \<Rightarrow> event list" where
  "effects r = snd (snd r)"

section \<open>Properties\<close>

subsection \<open>Prompt selection\<close>

text \<open>
  Claim C1. In the describe-image operation the four mode values quick, detailed,
  navigation and deafblind select four pairwise distinct, non-empty prompt templates, and
  every mode string outside these four selects the deafblind template, which is not the
  detailed one.
\<close>

theorem describe_prompt_modes:
  "distinct [describe_prompt ''quick'', describe_prompt ''detailed'',
             describe_prompt ''navigation'', describe_prompt ''deafblind''] \<and>
   describe_prompt ''quick'' \<noteq> [] \<and> describe_prompt ''detailed'' \<noteq> [] \<and>
   describe_prompt ''navigation'' \<noteq> [] \<and> describe_prompt ''deafblind'' \<noteq> [] \<and>
   (mode \<notin> {''quick'', ''detailed'', ''navigation'', ''deafblind''} \<longrightarrow>
      describe_prompt mode = describe_prompt ''deafblind'' \<and>
      describe_prompt mode \<noteq> describe_prompt ''detailed'')"
  by (simp add: describe_prompt_def prompt_quick_def prompt_detailed_def
      prompt_navigation_def prompt_deafblind_def)

theorem describe_prompt_modes_witness:
  "''braille'' \<notin> {''quick'', ''detailed'', ''navigation'', ''deafblind''} \<and>
   describe_prompt ''braille'' = describe_prompt ''deafblind'' \<and>
   describe_prompt ''braille'' \<noteq> describe_prompt ''detailed''"
proof -
  have out: "''braille'' \<notin> {''quick'', ''detailed'', ''navigation'', ''deafblind''}"
    by simp
  with describe_prompt_modes [of "''braille''"] show ?thesis
    by blast
qed

subsection \<open>Preferences: insert or replace\<close>

lemma preference_rows_upsert:
  "preference_rows k (upsert_preference k v t db) = [(k, v)]"
  by (simp add: preference_rows_def upsert_preference_def Let_def)

lemma api_preferences_single:
  "m \<noteq> ''GET'' \<Longrightarrow>
   db_after (api_preferences m repr (JObj [(k, v)]) t db) = upsert_preference k (py_str repr v) t db"
  by (simp add: api_preferences_def db_after_def upsert_all_def)

text \<open>
  Claim C4. For every preference key, an upsert of the key with one value followed by an
  upsert of the same key with a second value leaves exactly one stored row for the key, and
  the row holds the second value; this holds for the statement and for two POST requests to
  \<^verbatim>\<open>/api/preferences\<close> that carry the key, whatever the table held before.
\<close>

theorem upsert_twice_last_wins:
  "preference_rows k (upsert_preference k v2 t2 (upsert_preference k v1 t1 db)) = [(k, v2)] \<and>
   preference_rows k
     (db_after (api_preferences ''POST'' repr (JObj [(k, b)]) t2
        (db_after (api_preferences ''POST'' repr (JObj [(k, a)]) t1 db)))) = [(k, py_str repr b)]"
  by (simp add: preference_rows_upsert api_preferences_single)

subsection \<open>Deleting by id\<close>

lemma filter_id_absent: "i \<notin> f ` set xs \<Longrightarrow> filter (\<lambda>r. f r \<noteq> i) xs = xs"
  by (induction xs) auto

lemma bind_int_small: "ident < 2 ^ 63 \<Longrightarrow> bind_int (int ident) = Inr (int ident)"
  unfolding bind_int_def fits_int64_def
  by (simp add: of_nat_less_iff [of ident "2 ^ 63", where ?'a = int, simplified])

lemma bind_int_huge: "bind_int (int (2 ^ 63)) = Inl OverflowError"
  unfolding bind_int_def fits_int64_def by simp

lemma transcriptions_allowed: "''transcriptions'' \<in> set allowed_tables"
  by (simp add: allowed_tables_def)

lemma delete_from_absent:
  assumes "table \<in> set allowed_tables" and "ident \<notin> set (table_ids table db)"
  shows "delete_from table (int ident) db = Inr db"
proof -
  from assms(1) consider "table = ''image_descriptions''" | "table = ''transcriptions''"
    | "table = ''saved_texts''"
    by (auto simp: allowed_tables_def)
  then show ?thesis
  proof cases
    case 1
    with assms(2) show ?thesis by (simp add: delete_from_def table_ids_def filter_id_absent)
  next
    case 2
    with assms(2) show ?thesis by (simp add: delete_from_def table_ids_def filter_id_absent)
  next
    case 3
    with assms(2) show ?thesis by (simp add: delete_from_def table_ids_def filter_id_absent)
  qed
qed

text \<open>
  Claim C5, as stated: for every allowed table and every id that the table does not hold,
  the delete returns success. It fails at the id \<open>2\<^sup>6\<^sup>3\<close>: the route accepts the
  number, no table holds it, and binding it to the statement raises OverflowError, which
  the view answers with status 500.
\<close>

theorem delete_missing_id_counterexample:
  "''transcriptions'' \<in> set allowed_tables \<and>
   2 ^ 63 \<notin> set (table_ids ''transcriptions'' init_db) \<and>
   api_delete_item ''transcriptions'' (2 ^ 63) init_db =
     (ServerError OverflowError, init_db, [Connect, Delete ''transcriptions'']) \<and>
   status (fst (api_delete_item ''transcriptions'' (2 ^ 63) init_db)) = 500"
proof -
  have ids: "table_ids ''transcriptions'' init_db = []"
    by (simp add: table_ids_def init_db_def)
  have run: "api_delete_item ''transcriptions'' (2 ^ 63) init_db =
     (ServerError OverflowError, init_db, [Connect, Delete ''transcriptions''])"
    unfolding api_delete_item_def
    by (simp only: transcriptions_allowed bind_int_huge not_True_eq_False if_False sum.case)
  show ?thesis
    unfolding run using ids transcriptions_allowed by simp
qed

text \<open>
  Claim C5, amended. For every allowed table and every id below \<open>2\<^sup>6\<^sup>3\<close> that the
  table does not hold, the delete returns success, leaves the database as it was and runs
  its one statement and the commit; it reports neither an error nor not-found.
\<close>

theorem delete_missing_id:
  assumes "table \<in> set allowed_tables" and "ident < 2 ^ 63"
    and "ident \<notin> set (table_ids table db)"
  shows "api_delete_item table ident db =
           (Ok success, db, [Connect, Delete table, Commit, Close])"
  using assms by (simp add: api_delete_item_def bind_int_small delete_from_absent)

theorem delete_missing_id_witness:
  "''transcriptions'' \<in> set allowed_tables \<and> (7::nat) < 2 ^ 63 \<and>
   7 \<notin> set (table_ids ''transcriptions'' init_db) \<and>
   api_delete_item ''transcriptions'' 7 init_db =
     (Ok success, init_db, [Connect, Delete ''transcriptions'', Commit, Close])"
proof -
  have a: "''transcriptions'' \<in> set allowed_tables" by (rule transcriptions_allowed)
  have b: "(7::nat) < 2 ^ 63" by simp
  have c: "7 \<notin> set (table_ids ''transcriptions'' init_db)"
    by (simp add: table_ids_def init_db_def)
  from delete_missing_id [OF a b c] a b c show ?thesis by blast
qed

text \<open>Every id from \<open>2\<^sup>6\<^sup>3\<close> on fails in the same way, whatever the table holds.\<close>

lemma bind_int_over: "2 ^ 63 \<le> ident \<Longrightarrow> bind_int (int ident) = Inl OverflowError"
proof -
  assume "2 ^ 63 \<le> ident"
  then have "int (2 ^ 63) \<le> int ident" by (simp only: of_nat_le_iff)
  then have "\<not> int ident < 2 ^ 63" by simp
  then show ?thesis by (simp add: bind_int_def fits_int64_def)
qed

lemma delete_huge_id:
  "table \<in> set allowed_tables \<Longrightarrow> 2 ^ 63 \<le> ident \<Longrightarrow>
   api_delete_item table ident db = (ServerError OverflowError, db, [Connect, Delete table])"
  by (simp add: api_delete_item_def bind_int_over)

text \<open>
  Claim C6. For every table name outside the allow-list and every id, the delete endpoint
  returns the client error with status 400, leaves the stored state unchanged and performs
  no effect at all: no connection is opened and no statement is run.
\<close>

theorem delete_disallowed_table:
  "table \<notin> set allowed_tables \<Longrightarrow>
   api_delete_item table ident db = (ClientError ''Invalid table'', db, []) \<and>
   status (fst (api_delete_item table ident db)) = 400 \<and>
   db_after (api_delete_item table ident db) = db \<and>
   effects (api_delete_item table ident db) = []"
  by (simp add: api_delete_item_def db_after_def effects_def)

theorem delete_disallowed_table_witness:
  "''users'' \<notin> set allowed_tables \<and>
   api_delete_item ''users'' 1 init_db = (ClientError ''Invalid table'', init_db, []) \<and>
   status (fst (api_delete_item ''users'' 1 init_db)) = 400 \<and>
   db_after (api_delete_item ''users'' 1 init_db) = init_db \<and>
   effects (api_delete_item ''users'' 1 init_db) = []"
proof -
  have h: "''users'' \<notin> set allowed_tables" by (simp add: allowed_tables_def)
  from delete_disallowed_table [OF h] h show ?thesis by blast
qed

subsection \<open>Extracting a text document\<close>


text \<open>The extension is always computed: with a dot in the name the split has two parts.\<close>

lemma extension_total: "\<exists>e. extension s = Inr e"
  by (auto simp: extension_def rsplit1_def)

text \<open>A lead byte 194 or 195 with one continuation byte is a well-formed sequence.\<close>

lemma utf8_two_byte:
  assumes l: "(of_char a :: nat) = 194 \<or> (of_char a :: nat) = 195" and c: "continuation b"
  shows "utf8_valid (a # b # rest) = utf8_valid rest"
proof -
  have step: "utf8_valid (a # b # rest) =
     (let n = (of_char a :: nat) in
        if n < 128 then utf8_valid (b # rest)
        else if 194 \<le> n \<and> n \<le> 223 then continuation b \<and> utf8_valid rest
        else False)" if "(of_char a :: nat) \<le> 223"
    using that by (subst utf8_valid.simps(2)) (simp add: Let_def)
  from l have "(of_char a :: nat) \<le> 223" by linarith
  from step [OF this] l c show ?thesis
    by (auto simp: Let_def)
qed

text \<open>Every code point below 256 has a text, of one byte or of two, and the text is
  well-formed: this is what makes Latin-1 decoding total.\<close>

lemma utf8_of_byte_low:
  assumes "n < 128"
  shows "utf8_of_point n = Some [char_of n] \<and> utf8_valid (char_of n # rest) = utf8_valid rest"
proof -
  from assms have "n < 256" by simp
  then have "(of_char (char_of n) :: nat) = n" by simp
  with assms show ?thesis by (simp add: utf8_of_point_def)
qed

lemma utf8_of_byte_high:
  assumes low: "128 \<le> n" and bound: "n < 256"
  shows "\<exists>a b. utf8_of_point n = Some [a, b] \<and> utf8_valid (a # b # rest) = utf8_valid rest"
proof -
  from low have "128 div 64 \<le> n div 64" by (rule div_le_mono)
  then have two: "2 \<le> n div 64" by simp
  from bound have "n < 4 * 64" by simp
  then have four: "n div 64 < 4" by (rule less_mult_imp_div_less)
  from two four have lead: "192 + n div 64 = 194 \<or> 192 + n div 64 = (195::nat)"
    by linarith
  then have "192 + n div 64 < 256" by linarith
  then have lead_val: "(of_char (char_of (192 + n div 64)) :: nat) = 192 + n div 64"
    by simp
  have "n mod 64 < 64" by simp
  then have "128 + n mod 64 < 256" by linarith
  then have tail_val: "(of_char (char_of (128 + n mod 64)) :: nat) = 128 + n mod 64"
    by simp
  have cont: "continuation (char_of (128 + n mod 64))"
    unfolding continuation_def tail_val by simp
  from low bound have shape:
    "utf8_of_point n = Some [char_of (192 + n div 64), char_of (128 + n mod 64)]"
    by (simp add: utf8_of_point_def)
  from lead lead_val have "(of_char (char_of (192 + n div 64)) :: nat) = 194 \<or>
      (of_char (char_of (192 + n div 64)) :: nat) = 195"
    by simp
  from utf8_two_byte [OF this cont] shape show ?thesis by blast
qed

lemma utf8_of_byte:
  assumes "n < 256"
  shows "\<exists>s. utf8_of_point n = Some s \<and> utf8_valid (s @ rest) = utf8_valid rest"
proof (cases "n < 128")
  case True
  from utf8_of_byte_low [OF this, of rest] show ?thesis by simp
next
  case False
  then have "128 \<le> n" by simp
  from utf8_of_byte_high [OF this assms, of rest] show ?thesis by auto
qed

lemma str_of_bytes: "\<exists>s. str_of_points (map of_char bs) = Some s \<and> utf8_valid s"
proof (induction bs)
  case Nil
  show ?case by simp
next
  case (Cons b bs)
  then obtain t where t: "str_of_points (map of_char bs) = Some t" "utf8_valid t" by blast
  have "(of_char b :: nat) < 256" by simp
  from utf8_of_byte [OF this, of t] obtain s where
    s: "utf8_of_point (of_char b) = Some s" "utf8_valid (s @ t) = utf8_valid t" by blast
  from s t show ?case by simp
qed

lemma decode_latin1_total: "\<exists>text. decode Latin1 bs = Inr text \<and> utf8_valid text"
proof -
  from str_of_bytes [of bs] obtain s where
    "str_of_points (map of_char bs) = Some s" "utf8_valid s" by blast
  then show ?thesis by simp
qed

lemma decode_text_total:
  "\<exists>text. decode_text bs = Inr text \<and> utf8_valid text \<and>
     (utf8_valid bs \<longrightarrow> text = bs) \<and> (\<not> utf8_valid bs \<longrightarrow> decode Latin1 bs = Inr text)"
proof (cases "utf8_valid bs")
  case True
  then show ?thesis by (simp add: decode_text_def)
next
  case False
  from decode_latin1_total [of bs] obtain t where
    "decode Latin1 bs = Inr t" "utf8_valid t" by blast
  with False show ?thesis by (simp add: decode_text_def)
qed

text \<open>The text branch of the view, once the decoding has given a text.\<close>

lemma extract_txt:
  assumes "filename file \<noteq> []"
    and "extension (secure_filename nfkd (filename file)) = Inr ''txt''"
    and "decode_text (content file) = Inr text"
  shows "api_extract_document gm nfkd (Some file) db =
     (Ok [(''success'', JBool True), (''text'', JStr text), (''method'', JStr ''direct'')],
      db, [ReadUpload])"
  using assms by (simp add: api_extract_document_def)

text \<open>Closed evaluations used by the examples.\<close>

lemma extension_notes: "extension (secure_filename (\<lambda>s. s) ''notes.txt'') = Inr ''txt''"
  by (simp add: extension_def secure_filename_def ascii_ignore_def is_space_def filename_char_def
      strip_def rsplit1_def lower_def lower_char_def)

lemma decode_text_e9: "decode_text [CHR 0xE9] = Inr [CHR 0xC3, CHR 0xA9]"
  by code_simp

lemma decode_text_hello: "decode_text ''hello'' = Inr ''hello''"
  by (simp add: decode_text_def)

text \<open>
  Claim C3. For every uploaded file whose extension, as the view computes it, is
  \<open>txt\<close>, the extract-document view decodes the bytes itself and answers with method
  \<open>direct\<close>; its only effect is reading the upload, so the AI client is not called, and
  the result is the same with and without a configured client. This holds for every
  normalisation \<open>nfkd\<close>.
\<close>

theorem extract_txt_never_calls_ai:
  assumes "filename file \<noteq> []"
    and "extension (secure_filename nfkd (filename file)) = Inr ''txt''"
  shows "(\<exists>t. decode_text (content file) = Inr t \<and>
              api_extract_document gm nfkd (Some file) db =
                (Ok [(''success'', JBool True), (''text'', JStr t),
                     (''method'', JStr ''direct'')], db, [ReadUpload])) \<and>
         ai_calls (effects (api_extract_document gm nfkd (Some file) db)) = 0 \<and>
         api_extract_document (Some model) nfkd (Some file) db =
           api_extract_document None nfkd (Some file) db"
proof -
  from decode_text_total [of "content file"] obtain t where
    t: "decode_text (content file) = Inr t" by blast
  note run = extract_txt [OF assms t]
  have "ai_calls (effects (api_extract_document gm nfkd (Some file) db)) = 0"
    unfolding run by (simp add: effects_def ai_calls_def is_ai_call_def)
  moreover have "api_extract_document (Some model) nfkd (Some file) db =
      api_extract_document None nfkd (Some file) db"
    unfolding run by simp
  ultimately show ?thesis using t run by blast
qed

theorem extract_txt_never_calls_ai_witness:
  "filename \<lparr>filename = ''notes.txt'', content_type = None, content = ''hello''\<rparr> \<noteq> [] \<and>
   extension (secure_filename (\<lambda>s. s)
     (filename \<lparr>filename = ''notes.txt'', content_type = None, content = ''hello''\<rparr>)) = Inr ''txt'' \<and>
   api_extract_document (Some (\<lambda>parts. Inr ''generated'')) (\<lambda>s. s)
     (Some \<lparr>filename = ''notes.txt'', content_type = None, content = ''hello''\<rparr>) init_db =
     (Ok [(''success'', JBool True), (''text'', JStr ''hello''), (''method'', JStr ''direct'')],
      init_db, [ReadUpload]) \<and>
   ai_calls (effects (api_extract_document (Some (\<lambda>parts. Inr ''generated'')) (\<lambda>s. s)
     (Some \<lparr>filename = ''notes.txt'', content_type = None, content = ''hello''\<rparr>) init_db)) = 0"
proof -
  let ?f = "\<lparr>filename = ''notes.txt'', content_type = None, content = ''hello''\<rparr>"
  let ?g = "Some (\<lambda>parts. Inr ''generated'') :: gemini option"
  have a: "filename ?f \<noteq> []" by simp
  have b: "extension (secure_filename (\<lambda>s. s) (filename ?f)) = Inr ''txt''"
    by (simp add: extension_notes)
  from extract_txt_never_calls_ai [OF a b, of ?g init_db] obtain t where
    t: "decode_text (content ?f) = Inr t"
    and run: "api_extract_document ?g (\<lambda>s. s) (Some ?f) init_db =
      (Ok [(''success'', JBool True), (''text'', JStr t), (''method'', JStr ''direct'')],
       init_db, [ReadUpload])"
    and quiet: "ai_calls (effects (api_extract_document ?g (\<lambda>s. s) (Some ?f) init_db)) = 0"
    by blast
  from t have "t = ''hello''" by (simp add: decode_text_hello)
  with run quiet a b show ?thesis by simp
qed

text \<open>
  Claim C10. For every byte sequence uploaded as a \<open>.txt\<close> document the decoding step
  is total: Latin-1 decoding yields a text for any bytes, so the decoding of the view
  yields a text, which is the input when the input is well-formed UTF-8 and its Latin-1
  reading otherwise; the view then answers with status 200 and method \<open>direct\<close> and
  never with its error arm.
\<close>

theorem txt_decoding_total:
  "(\<exists>t. decode Latin1 bs = Inr t \<and> utf8_valid t) \<and>
   (\<exists>t. decode_text bs = Inr t \<and> utf8_valid t \<and>
        (utf8_valid bs \<longrightarrow> t = bs) \<and> (\<not> utf8_valid bs \<longrightarrow> decode Latin1 bs = Inr t)) \<and>
   (filename file \<noteq> [] \<and> extension (secure_filename nfkd (filename file)) = Inr ''txt'' \<longrightarrow>
      (\<exists>t. decode_text (content file) = Inr t \<and>
           api_extract_document gm nfkd (Some file) db =
             (Ok [(''success'', JBool True), (''text'', JStr t),
                  (''method'', JStr ''direct'')], db, [ReadUpload])) \<and>
      status (fst (api_extract_document gm nfkd (Some file) db)) = 200 \<and>
      (\<forall>e. fst (api_extract_document gm nfkd (Some file) db) \<noteq> ServerError e))"
proof -
  have view: "(\<exists>t. decode_text (content file) = Inr t \<and>
           api_extract_document gm nfkd (Some file) db =
             (Ok [(''success'', JBool True), (''text'', JStr t),
                  (''method'', JStr ''direct'')], db, [ReadUpload])) \<and>
      status (fst (api_extract_document gm nfkd (Some file) db)) = 200 \<and>
      (\<forall>e. fst (api_extract_document gm nfkd (Some file) db) \<noteq> ServerError e)"
    if h: "filename file \<noteq> []" "extension (secure_filename nfkd (filename file)) = Inr ''txt''"
  proof -
    from decode_text_total [of "content file"] obtain t where
      t: "decode_text (content file) = Inr t" by blast
    note run = extract_txt [OF h t]
    have "status (fst (api_extract_document gm nfkd (Some file) db)) = 200"
      unfolding run by simp
    moreover have "\<forall>e. fst (api_extract_document gm nfkd (Some file) db) \<noteq> ServerError e"
      unfolding run by simp
    ultimately show ?thesis using t run by blast
  qed
  from decode_latin1_total [of bs] decode_text_total [of bs] view show ?thesis
    by blast
qed

theorem txt_decoding_total_witness:
  "filename \<lparr>filename = ''notes.txt'', content_type = None, content = [CHR 0xE9]\<rparr> \<noteq> [] \<and>
   extension (secure_filename (\<lambda>s. s)
     (filename \<lparr>filename = ''notes.txt'', content_type = None, content = [CHR 0xE9]\<rparr>)) = Inr ''txt'' \<and>
   \<not> utf8_valid [CHR 0xE9] \<and>
   decode UTF8 [CHR 0xE9] = Inl UnicodeDecodeError \<and>
   decode Latin1 [CHR 0xE9] = Inr [CHR 0xC3, CHR 0xA9] \<and>
   api_extract_document None (\<lambda>s. s)
     (Some \<lparr>filename = ''notes.txt'', content_type = None, content = [CHR 0xE9]\<rparr>) init_db =
     (Ok [(''success'', JBool True), (''text'', JStr [CHR 0xC3, CHR 0xA9]),
          (''method'', JStr ''direct'')], init_db, [ReadUpload])"
proof -
  let ?f = "\<lparr>filename = ''notes.txt'', content_type = None, content = [CHR 0xE9]\<rparr>"
  have a: "filename ?f \<noteq> []" by simp
  have b: "extension (secure_filename (\<lambda>s. s) (filename ?f)) = Inr ''txt''"
    by (simp add: extension_notes)
  have c: "\<not> utf8_valid [CHR 0xE9]" by simp
  note all = txt_decoding_total [of "[CHR 0xE9]" ?f "\<lambda>s. s" None init_db]
  from all c obtain u where u: "decode_text [CHR 0xE9] = Inr u" "decode Latin1 [CHR 0xE9] = Inr u"
    by blast
  from u(1) have u_val: "u = [CHR 0xC3, CHR 0xA9]" by (simp add: decode_text_e9)
  from all a b obtain t where t: "decode_text (content ?f) = Inr t"
    and run: "api_extract_document None (\<lambda>s. s) (Some ?f) init_db =
      (Ok [(''success'', JBool True), (''text'', JStr t), (''method'', JStr ''direct'')],
       init_db, [ReadUpload])"
    by blast
  from t have "t = [CHR 0xC3, CHR 0xA9]" by (simp add: decode_text_e9)
  with run u u_val a b c show ?thesis by simp
qed

subsection \<open>Validation of uploads\<close>


lemma allowed_file_virus: "\<not> allowed_file ''virus.exe''"
  by (simp add: allowed_file_def rsplit1_def ALLOWED_EXTENSIONS_def lower_def lower_char_def)

lemma allowed_file_notes_dot: "\<not> allowed_file ''notes.txt.''"
  by (simp add: allowed_file_def rsplit1_def ALLOWED_EXTENSIONS_def lower_def lower_char_def)

lemma extension_notes_dot: "extension (secure_filename (\<lambda>s. s) ''notes.txt.'') = Inr ''txt''"
  by (simp add: extension_def secure_filename_def ascii_ignore_def is_space_def filename_char_def
      strip_def rsplit1_def lower_def lower_char_def)

lemma extension_virus: "extension (secure_filename (\<lambda>s. s) ''virus.exe'') = Inr ''exe''"
  by (simp add: extension_def secure_filename_def ascii_ignore_def is_space_def filename_char_def
      strip_def rsplit1_def lower_def lower_char_def)

lemma describe_rejects:
  assumes "filename file = [] \<or> \<not> allowed_file (filename file)"
  shows "status (fst (api_describe_image gm nfkd (Some file) mode now db)) = 400 \<and>
         db_after (api_describe_image gm nfkd (Some file) mode now db) = db \<and>
         effects (api_describe_image gm nfkd (Some file) mode now db) = []"
  using assms
  by (cases gm) (auto simp: api_describe_image_def db_after_def effects_def)

lemma extract_empty_name:
  "filename file = [] \<Longrightarrow>
   api_extract_document gm nfkd (Some file) db = (ClientError ''No document selected'', db, [])"
  by (simp add: api_extract_document_def)

lemma extract_unsupported:
  assumes "filename file \<noteq> []"
    and "extension (secure_filename nfkd (filename file)) = Inr ext"
    and "ext \<notin> {''txt'', ''pdf'', ''png'', ''jpg'', ''jpeg''}"
  shows "api_extract_document gm nfkd (Some file) db =
     (ClientError ''Unsupported file type or Gemini not available'', db, [ReadUpload])"
  using assms by (cases gm) (simp_all add: api_extract_document_def)

text \<open>
  Claim C2, amended. The describe-image view tests the name of the upload against the
  allow-list before it reads the upload or calls the AI client, and answers with a client
  error when the name is empty or its extension is missing or not allowed. The
  extract-document view does not consult the allow-list: it answers with a client error
  when the name is empty; otherwise it reads the upload, takes the extension of the
  sanitised name and answers with a client error when that extension is none of txt, pdf,
  png, jpg and jpeg.
\<close>

theorem upload_validation:
  "(filename file = [] \<or> \<not> allowed_file (filename file) \<longrightarrow>
      status (fst (api_describe_image gm nfkd (Some file) mode now db)) = 400 \<and>
      db_after (api_describe_image gm nfkd (Some file) mode now db) = db \<and>
      effects (api_describe_image gm nfkd (Some file) mode now db) = []) \<and>
   (filename file = [] \<longrightarrow>
      api_extract_document gm nfkd (Some file) db =
        (ClientError ''No document selected'', db, [])) \<and>
   (filename file \<noteq> [] \<and> extension (secure_filename nfkd (filename file)) = Inr ext \<and>
    ext \<notin> {''txt'', ''pdf'', ''png'', ''jpg'', ''jpeg''} \<longrightarrow>
      api_extract_document gm nfkd (Some file) db =
        (ClientError ''Unsupported file type or Gemini not available'', db, [ReadUpload]))"
  using describe_rejects [of "file" gm nfkd mode now db]
    extract_empty_name [of "file" gm nfkd db]
    extract_unsupported [of "file" nfkd ext gm db]
  by blast

text \<open>
  Claim C2, as stated: both upload views reject a name whose extension is missing or not
  in the allow-list. It fails for the extract-document view at the name
  \<^verbatim>\<open>notes.txt.\<close>, whose extension after the last dot is empty, so that
  \<open>allowed_file\<close> refuses it: the view never calls \<open>allowed_file\<close>, the
  sanitised name is \<^verbatim>\<open>notes.txt\<close>, and the answer is the decoded text with
  status 200.
\<close>

theorem upload_validation_counterexample:
  "''notes.txt.'' \<noteq> [] \<and> \<not> allowed_file ''notes.txt.'' \<and>
   api_extract_document None (\<lambda>s. s)
     (Some \<lparr>filename = ''notes.txt.'', content_type = None, content = ''hello''\<rparr>) init_db =
     (Ok [(''success'', JBool True), (''text'', JStr ''hello''), (''method'', JStr ''direct'')],
      init_db, [ReadUpload]) \<and>
   status (fst (api_extract_document None (\<lambda>s. s)
     (Some \<lparr>filename = ''notes.txt.'', content_type = None, content = ''hello''\<rparr>) init_db)) = 200"
proof -
  let ?f = "\<lparr>filename = ''notes.txt.'', content_type = None, content = ''hello''\<rparr>"
  have a: "filename ?f \<noteq> []" by simp
  have b: "extension (secure_filename (\<lambda>s. s) (filename ?f)) = Inr ''txt''"
    by (simp add: extension_notes_dot)
  have c: "decode_text (content ?f) = Inr ''hello''" by (simp add: decode_text_def)
  note run = extract_txt [OF a b c, of None init_db]
  show ?thesis unfolding run using allowed_file_notes_dot by simp
qed

theorem upload_validation_witness:
  "\<not> allowed_file ''virus.exe'' \<and>
   status (fst (api_describe_image (Some (\<lambda>parts. Inr ''generated'')) (\<lambda>s. s)
     (Some \<lparr>filename = ''virus.exe'', content_type = None, content = ''MZ''\<rparr>) None 100 init_db)) = 400 \<and>
   effects (api_describe_image (Some (\<lambda>parts. Inr ''generated'')) (\<lambda>s. s)
     (Some \<lparr>filename = ''virus.exe'', content_type = None, content = ''MZ''\<rparr>) None 100 init_db) = [] \<and>
   api_extract_document None (\<lambda>s. s)
     (Some \<lparr>filename = [], content_type = None, content = ''MZ''\<rparr>) init_db =
     (ClientError ''No document selected'', init_db, []) \<and>
   extension (secure_filename (\<lambda>s. s) ''virus.exe'') = Inr ''exe'' \<and>
   ''exe'' \<notin> {''txt'', ''pdf'', ''png'', ''jpg'', ''jpeg''} \<and>
   api_extract_document (Some (\<lambda>parts. Inr ''generated'')) (\<lambda>s. s)
     (Some \<lparr>filename = ''virus.exe'', content_type = None, content = ''MZ''\<rparr>) init_db =
     (ClientError ''Unsupported file type or Gemini not available'', init_db, [ReadUpload])"
proof -
  let ?v = "\<lparr>filename = ''virus.exe'', content_type = None, content = ''MZ''\<rparr>"
  let ?e = "\<lparr>filename = [], content_type = None, content = ''MZ''\<rparr>"
  let ?g = "Some (\<lambda>parts. Inr ''generated'') :: gemini option"
  have a: "\<not> allowed_file (filename ?v)" by (simp add: allowed_file_virus)
  have b: "filename ?e = []" by simp
  have c: "filename ?v \<noteq> []" by simp
  have d: "extension (secure_filename (\<lambda>s. s) (filename ?v)) = Inr ''exe''"
    by (simp add: extension_virus)
  have e: "''exe'' \<notin> {''txt'', ''pdf'', ''png'', ''jpg'', ''jpeg''}" by simp
  from upload_validation [of ?v ?g "\<lambda>s. s" None 100 init_db "''exe''"] a
  have one: "status (fst (api_describe_image ?g (\<lambda>s. s) (Some ?v) None 100 init_db)) = 400 \<and>
      effects (api_describe_image ?g (\<lambda>s. s) (Some ?v) None 100 init_db) = []"
    by blast
  from upload_validation [of ?e None "\<lambda>s. s" None 100 init_db "''exe''"] b
  have two: "api_extract_document None (\<lambda>s. s) (Some ?e) init_db =
      (ClientError ''No document selected'', init_db, [])"
    by blast
  from upload_validation [of ?v ?g "\<lambda>s. s" None 100 init_db "''exe''"] c d e
  have three: "api_extract_document ?g (\<lambda>s. s) (Some ?v) init_db =
      (ClientError ''Unsupported file type or Gemini not available'', init_db, [ReadUpload])"
    by blast
  from one two three a d e show ?thesis by simp
qed

subsection \<open>Required fields\<close>


lemma save_transcription_missing:
  "\<not> truthy data \<or> py_in ''text'' data = Inr False \<Longrightarrow>
   api_save_transcription data now db = (ClientError ''No text provided'', db, [])"
  by (auto simp: api_save_transcription_def)

lemma save_text_missing:
  "\<not> truthy data \<or> py_in ''content'' data = Inr False \<Longrightarrow>
   api_save_text data now db = (ClientError ''No content provided'', db, [])"
  by (auto simp: api_save_text_def)

lemma simplify_text_missing:
  "\<not> truthy data \<or> py_in ''text'' data = Inr False \<Longrightarrow>
   api_simplify_text (Some model) repr data db = (ClientError ''No text provided'', db, [])"
  by (auto simp: api_simplify_text_def)

lemma conversation_missing:
  "\<not> truthy data \<Longrightarrow> api_conversation data now db = (ClientError ''No data provided'', db, [])"
  by (simp add: api_conversation_def)

lemma preferences_missing:
  "m \<noteq> ''GET'' \<Longrightarrow> \<not> truthy data \<Longrightarrow>
   api_preferences m repr data now db = (ClientError ''No data provided'', db, [Connect])"
  by (simp add: api_preferences_def)

lemma describe_missing:
  "api_describe_image (Some model) nfkd None mode now db =
     (ClientError ''No image provided'', db, []) \<and>
   (filename f = [] \<longrightarrow>
      api_describe_image (Some model) nfkd (Some f) mode now db =
        (ClientError ''No image selected'', db, []))"
  by (simp add: api_describe_image_def)

lemma extract_missing:
  "api_extract_document gm nfkd None db = (ClientError ''No document provided'', db, []) \<and>
   (filename f = [] \<longrightarrow>
      api_extract_document gm nfkd (Some f) db = (ClientError ''No document selected'', db, []))"
  by (simp add: api_extract_document_def)

lemma map_of_key: "map_of kvs k = Some v \<Longrightarrow> k \<in> fst ` set kvs"
  by (induction kvs) (auto split: if_splits)

lemma save_transcription_text:
  assumes "map_of kvs ''text'' = Some (JStr s)" and "map_of kvs ''source'' = None"
  shows "api_save_transcription (JObj kvs) now db =
     (Ok success,
      db\<lparr>transcriptions := transcriptions db @
            [\<lparr>tr_id = next_id (seq_transcriptions db) (map tr_id (transcriptions db)),
              tr_text = s, tr_source = Some ''speech'', tr_created_at = now\<rparr>],
         seq_transcriptions := next_id (seq_transcriptions db) (map tr_id (transcriptions db))\<rparr>,
      [Connect, Insert ''transcriptions'', Commit, Close])"
proof -
  from assms(1) have key: "''text'' \<in> fst ` set kvs" by (rule map_of_key)
  then have "kvs \<noteq> []" by auto
  with key assms show ?thesis
    by (simp add: api_save_transcription_def insert_transcription_def Let_def)
qed

text \<open>
  Claim C8, amended. Every view tests that its required input is present and answers with
  a client error otherwise: a missing or empty JSON body, a JSON object without the
  required key (\<^verbatim>\<open>text\<close> for save-transcription and simplify-text,
  \<^verbatim>\<open>content\<close> for save-text), a missing file part, an empty file name. The
  views do not test that a field which is present is non-empty: a body with a
  \<^verbatim>\<open>text\<close> string and no \<^verbatim>\<open>source\<close> is stored and answered with
  success whatever the string is, the empty string included.
\<close>

theorem required_fields_present:
  "(\<not> truthy data \<or> py_in ''text'' data = Inr False \<longrightarrow>
      api_save_transcription data now db = (ClientError ''No text provided'', db, []) \<and>
      api_simplify_text (Some model) repr data db = (ClientError ''No text provided'', db, [])) \<and>
   (\<not> truthy data \<or> py_in ''content'' data = Inr False \<longrightarrow>
      api_save_text data now db = (ClientError ''No content provided'', db, [])) \<and>
   (\<not> truthy data \<longrightarrow>
      api_conversation data now db = (ClientError ''No data provided'', db, []) \<and>
      (m \<noteq> ''GET'' \<longrightarrow>
         api_preferences m repr data now db = (ClientError ''No data provided'', db, [Connect]))) \<and>
   api_describe_image (Some model) nfkd None mode now db =
     (ClientError ''No image provided'', db, []) \<and>
   api_extract_document gm nfkd None db = (ClientError ''No document provided'', db, []) \<and>
   (filename f = [] \<longrightarrow>
      api_describe_image (Some model) nfkd (Some f) mode now db =
        (ClientError ''No image selected'', db, []) \<and>
      api_extract_document gm nfkd (Some f) db = (ClientError ''No document selected'', db, [])) \<and>
   (map_of kvs ''text'' = Some (JStr s) \<and> map_of kvs ''source'' = None \<longrightarrow>
      api_save_transcription (JObj kvs) now db =
        (Ok success,
         db\<lparr>transcriptions := transcriptions db @
               [\<lparr>tr_id = next_id (seq_transcriptions db) (map tr_id (transcriptions db)),
                 tr_text = s, tr_source = Some ''speech'', tr_created_at = now\<rparr>],
            seq_transcriptions := next_id (seq_transcriptions db) (map tr_id (transcriptions db))\<rparr>,
         [Connect, Insert ''transcriptions'', Commit, Close]))"
  using save_transcription_missing [of data now db] simplify_text_missing [of data model repr db]
    save_text_missing [of data now db] conversation_missing [of data now db]
    preferences_missing [of m data repr now db] describe_missing [of model nfkd mode now db f]
    extract_missing [of gm nfkd db f] save_transcription_text [of kvs s now db]
  by blast

lemma save_empty_text:
  "api_save_transcription (JObj [(''text'', JStr [])]) 100 init_db =
     (Ok success,
      init_db\<lparr>transcriptions :=
                [\<lparr>tr_id = 1, tr_text = [], tr_source = Some ''speech'', tr_created_at = 100\<rparr>],
              seq_transcriptions := 1\<rparr>,
      [Connect, Insert ''transcriptions'', Commit, Close])"
  by (simp add: api_save_transcription_def insert_transcription_def next_id_def init_db_def)

text \<open>
  Claim C8, as stated: a body whose required field is present but is the empty string is
  rejected with a client error. It fails at the body \<^verbatim>\<open>{"text": ""}\<close>:
  save-transcription stores a row with the empty text and answers with status 200, and
  simplify-text, with a configured client, sends the prompt with nothing after it.
\<close>

theorem required_fields_counterexample:
  "api_save_transcription (JObj [(''text'', JStr [])]) 100 init_db =
     (Ok success,
      init_db\<lparr>transcriptions :=
                [\<lparr>tr_id = 1, tr_text = [], tr_source = Some ''speech'', tr_created_at = 100\<rparr>],
              seq_transcriptions := 1\<rparr>,
      [Connect, Insert ''transcriptions'', Commit, Close]) \<and>
   status (fst (api_save_transcription (JObj [(''text'', JStr [])]) 100 init_db)) = 200 \<and>
   api_simplify_text (Some (\<lambda>parts. Inr ''generated'')) (\<lambda>v. []) (JObj [(''text'', JStr [])])
     init_db =
     (Ok [(''success'', JBool True), (''simplified'', JStr ''generated'')], init_db,
      [Generate [Text simplify_prompt]])"
proof -
  have "api_simplify_text (Some (\<lambda>parts. Inr ''generated'')) (\<lambda>v. []) (JObj [(''text'', JStr [])])
     init_db =
     (Ok [(''success'', JBool True), (''simplified'', JStr ''generated'')], init_db,
      [Generate [Text simplify_prompt]])"
    by (simp add: api_simplify_text_def)
  then show ?thesis unfolding save_empty_text by simp
qed

theorem required_fields_present_witness:
  "\<not> truthy (JObj []) \<and>
   api_save_transcription (JObj []) 100 init_db = (ClientError ''No text provided'', init_db, []) \<and>
   py_in ''text'' (JObj [(''source'', JStr ''speech'')]) = Inr False \<and>
   api_save_transcription (JObj [(''source'', JStr ''speech'')]) 100 init_db =
     (ClientError ''No text provided'', init_db, []) \<and>
   py_in ''content'' (JObj [(''title'', JStr ''note'')]) = Inr False \<and>
   api_save_text (JObj [(''title'', JStr ''note'')]) 100 init_db =
     (ClientError ''No content provided'', init_db, []) \<and>
   api_conversation JNull 100 init_db = (ClientError ''No data provided'', init_db, []) \<and>
   api_preferences ''POST'' (\<lambda>v. []) (JObj []) 100 init_db =
     (ClientError ''No data provided'', init_db, [Connect]) \<and>
   api_extract_document None (\<lambda>s. s)
     (Some \<lparr>filename = [], content_type = None, content = ''hello''\<rparr>) init_db =
     (ClientError ''No document selected'', init_db, []) \<and>
   map_of [(''text'', JStr [])] ''text'' = Some (JStr []) \<and>
   map_of [(''text'', JStr [])] ''source'' = None \<and>
   status (fst (api_save_transcription (JObj [(''text'', JStr [])]) 100 init_db)) = 200"
proof -
  let ?e = "\<lparr>filename = [], content_type = None, content = ''hello''\<rparr>"
  let ?m = "\<lambda>parts. Inr ''generated'' :: exn + string"
  have a: "\<not> truthy (JObj [])" by simp
  have b: "py_in ''text'' (JObj [(''source'', JStr ''speech'')]) = Inr False" by simp
  have c: "py_in ''content'' (JObj [(''title'', JStr ''note'')]) = Inr False" by simp
  have d: "\<not> truthy JNull" by simp
  have e: "''POST'' \<noteq> ''GET''" by simp
  have f: "filename ?e = []" by simp
  have g: "map_of [(''text'', JStr [])] ''text'' = Some (JStr [])"
    "map_of [(''text'', JStr [])] ''source'' = None" by simp_all
  from required_fields_present [of "JObj []" 100 init_db ?m "\<lambda>v. []" "''POST''" "\<lambda>s. s" None None
      ?e "[(''text'', JStr [])]" "[]"] a e f g
  have one: "api_save_transcription (JObj []) 100 init_db =
        (ClientError ''No text provided'', init_db, []) \<and>
      api_preferences ''POST'' (\<lambda>v. []) (JObj []) 100 init_db =
        (ClientError ''No data provided'', init_db, [Connect]) \<and>
      api_extract_document None (\<lambda>s. s) (Some ?e) init_db =
        (ClientError ''No document selected'', init_db, []) \<and>
      (\<exists>db'. api_save_transcription (JObj [(''text'', JStr [])]) 100 init_db =
        (Ok success, db', [Connect, Insert ''transcriptions'', Commit, Close]))"
    by blast
  from required_fields_present [of "JObj [(''source'', JStr ''speech'')]" 100 init_db ?m
      "\<lambda>v. []" "''POST''" "\<lambda>s. s" None None ?e "[(''text'', JStr [])]" "[]"] b
  have two: "api_save_transcription (JObj [(''source'', JStr ''speech'')]) 100 init_db =
      (ClientError ''No text provided'', init_db, [])"
    by blast
  from required_fields_present [of "JObj [(''title'', JStr ''note'')]" 100 init_db ?m
      "\<lambda>v. []" "''POST''" "\<lambda>s. s" None None ?e "[(''text'', JStr [])]" "[]"] c
  have three: "api_save_text (JObj [(''title'', JStr ''note'')]) 100 init_db =
      (ClientError ''No content provided'', init_db, [])"
    by blast
  from required_fields_present [of JNull 100 init_db ?m
      "\<lambda>v. []" "''POST''" "\<lambda>s. s" None None ?e "[(''text'', JStr [])]" "[]"] d
  have four: "api_conversation JNull 100 init_db = (ClientError ''No data provided'', init_db, [])"
    by blast
  from one obtain db' where ok: "api_save_transcription (JObj [(''text'', JStr [])]) 100 init_db =
        (Ok success, db', [Connect, Insert ''transcriptions'', Commit, Close])" by blast
  have five: "status (fst (api_save_transcription (JObj [(''text'', JStr [])]) 100 init_db)) = 200"
    unfolding ok by simp
  from one two three four five a b c g show ?thesis by simp
qed

subsection \<open>Saving and reading back transcriptions\<close>


text \<open>The query of the saved-content page on the transcriptions is \<open>select_recent\<close>.\<close>

lemma saved_content_transcriptions:
  "\<exists>ds ss. fst (saved_content db) =
     SavedContentPage ds (select_recent tr_created_at (transcriptions db)) ss"
  by (simp add: saved_content_def)











subsection \<open>Calls and writes of a request\<close>


text \<open>The effects of each view, counted: AI calls, write statements, commits.\<close>

lemmas count_defs = effects_def ai_calls_def writes_def commits_def is_ai_call_def is_write_def

lemma pages_quiet:
  "effects (index_page gm db) = [] \<and> effects (image_describer gm db) = [] \<and>
   effects (speech_to_text db) = [] \<and> effects (text_to_speech db) = [] \<and>
   effects (communication_bridge db) = [] \<and> effects (document_reader gm db) = []"
  by (simp add: effects_def index_page_def image_describer_def speech_to_text_def
      text_to_speech_def communication_bridge_def document_reader_def)

lemma saved_content_counts:
  "ai_calls (effects (saved_content db)) = 0 \<and> writes (effects (saved_content db)) = 0 \<and>
   commits (effects (saved_content db)) = 0"
  by (simp add: saved_content_def count_defs)

lemma describe_image_counts:
  "ai_calls (effects (api_describe_image gm nfkd f m now db)) \<le> 1 \<and>
   writes (effects (api_describe_image gm nfkd f m now db)) \<le> 1 \<and>
   commits (effects (api_describe_image gm nfkd f m now db)) \<le> 1"
  by (simp add: api_describe_image_def count_defs Let_def split: option.split sum.split)

lemma save_transcription_counts:
  "ai_calls (effects (api_save_transcription d now db)) = 0 \<and>
   writes (effects (api_save_transcription d now db)) \<le> 1 \<and>
   commits (effects (api_save_transcription d now db)) \<le> 1"
  by (simp add: api_save_transcription_def count_defs split: sum.split bool.split)

lemma save_text_counts:
  "ai_calls (effects (api_save_text d now db)) = 0 \<and>
   writes (effects (api_save_text d now db)) \<le> 1 \<and>
   commits (effects (api_save_text d now db)) \<le> 1"
  by (simp add: api_save_text_def count_defs split: sum.split bool.split)

lemma extract_document_counts:
  "ai_calls (effects (api_extract_document gm nfkd f db)) \<le> 1 \<and>
   writes (effects (api_extract_document gm nfkd f db)) = 0 \<and>
   commits (effects (api_extract_document gm nfkd f db)) = 0"
  by (simp add: api_extract_document_def count_defs Let_def split: option.split sum.split)

lemma conversation_counts:
  "ai_calls (effects (api_conversation d now db)) = 0 \<and>
   writes (effects (api_conversation d now db)) \<le> 1 \<and>
   commits (effects (api_conversation d now db)) \<le> 1"
  by (simp add: api_conversation_def count_defs split: sum.split)

lemma simplify_text_counts:
  "ai_calls (effects (api_simplify_text gm repr d db)) \<le> 1 \<and>
   writes (effects (api_simplify_text gm repr d db)) = 0 \<and>
   commits (effects (api_simplify_text gm repr d db)) = 0"
  by (simp add: api_simplify_text_def count_defs Let_def split: option.split sum.split bool.split)

lemma delete_item_counts:
  "ai_calls (effects (api_delete_item t i db)) = 0 \<and>
   writes (effects (api_delete_item t i db)) \<le> 1 \<and>
   commits (effects (api_delete_item t i db)) \<le> 1"
  by (simp add: api_delete_item_def count_defs split: sum.split)

lemma upsert_events:
  "filter is_write (map (\<lambda>kv. Upsert t) kvs) = map (\<lambda>kv. Upsert t) kvs \<and>
   filter is_ai_call (map (\<lambda>kv. Upsert t) kvs) = [] \<and>
   filter (\<lambda>ev. ev = Commit) (map (\<lambda>kv. Upsert t) kvs) = []"
  by (induction kvs) (simp_all add: is_write_def is_ai_call_def)

lemma preferences_counts:
  "ai_calls (effects (api_preferences m repr d now db)) = 0 \<and>
   commits (effects (api_preferences m repr d now db)) \<le> 1 \<and>
   writes (effects (api_preferences m repr d now db)) \<le> (case d of JObj kvs \<Rightarrow> length kvs | _ \<Rightarrow> 0)"
  by (cases d) (simp_all add: api_preferences_def count_defs upsert_events)


text \<open>
  Claim C7, amended. Every request performs at most one call of the AI client and at most
  one commit; every request other than one to \<^verbatim>\<open>/api/preferences\<close> performs at
  most one write statement (insert, delete or upsert); a request to
  \<^verbatim>\<open>/api/preferences\<close> with a JSON object performs at most one upsert for each
  key of the object.
\<close>

theorem one_call_one_write:
  "ai_calls (effects (handle E req db)) \<le> 1 \<and>
   commits (effects (handle E req db)) \<le> 1 \<and>
   ((\<forall>m d. req \<noteq> Preferences m d) \<longrightarrow> writes (effects (handle E req db)) \<le> 1) \<and>
   (req = Preferences m (JObj kvs) \<longrightarrow> writes (effects (handle E req db)) \<le> length kvs)"
proof (cases req)
  case (Preferences m' d)
  from preferences_counts [of m' "py_repr E" d "clock E" db] Preferences show ?thesis
    by auto
next
  case (POST_describe_image f mode)
  from describe_image_counts [of "gemini_model E" "unicode_nfkd E" f mode "clock E" db]
    POST_describe_image show ?thesis by simp
next
  case (POST_save_transcription d)
  from save_transcription_counts [of d "clock E" db] POST_save_transcription show ?thesis
    by simp
next
  case (POST_save_text d)
  from save_text_counts [of d "clock E" db] POST_save_text show ?thesis by simp
next
  case (POST_extract_document f)
  from extract_document_counts [of "gemini_model E" "unicode_nfkd E" f db]
    POST_extract_document show ?thesis by simp
next
  case (POST_conversation d)
  from conversation_counts [of d "clock E" db] POST_conversation show ?thesis by simp
next
  case (POST_simplify_text d)
  from simplify_text_counts [of "gemini_model E" "py_repr E" d db] POST_simplify_text
  show ?thesis by simp
next
  case (DELETE_item t i)
  from delete_item_counts [of t i db] DELETE_item show ?thesis by simp
next
  case GET_saved_content
  from saved_content_counts [of db] GET_saved_content show ?thesis by simp
qed (simp_all add: pages_quiet [of "gemini_model E" db, simplified effects_def]
       effects_def index_page_def image_describer_def speech_to_text_def text_to_speech_def
       communication_bridge_def document_reader_def ai_calls_def writes_def commits_def)

lemma two_preferences:
  "handle \<lparr>gemini_model = None, clock = 100, py_repr = (\<lambda>v. []), unicode_nfkd = (\<lambda>s. s)\<rparr>
     (Preferences ''POST'' (JObj [(''theme'', JStr ''dark''), (''font'', JStr ''large'')]))
     init_db =
   (Ok success,
    init_db\<lparr>user_preferences :=
        [\<lparr>pref_id = 1, preference_key = ''theme'', preference_value = ''dark'',
          pref_updated_at = 100\<rparr>,
         \<lparr>pref_id = 2, preference_key = ''font'', preference_value = ''large'',
          pref_updated_at = 100\<rparr>],
      seq_user_preferences := 2\<rparr>,
    [Connect, Upsert ''user_preferences'', Upsert ''user_preferences'', Commit, Close])"
  by (simp add: api_preferences_def upsert_all_def upsert_preference_def next_id_def init_db_def)

text \<open>
  Claim C7, as stated: every request performs at most one storage write. It fails for a
  POST to \<^verbatim>\<open>/api/preferences\<close> with two keys: the loop of the view runs one
  \<^verbatim>\<open>INSERT OR REPLACE\<close> for each key, two statements and two stored rows, before
  its one commit.
\<close>

theorem one_write_counterexample:
  "writes (effects (handle
     \<lparr>gemini_model = None, clock = 100, py_repr = (\<lambda>v. []), unicode_nfkd = (\<lambda>s. s)\<rparr>
     (Preferences ''POST'' (JObj [(''theme'', JStr ''dark''), (''font'', JStr ''large'')]))
     init_db)) = 2 \<and>
   map preference_key (user_preferences (db_after (handle
     \<lparr>gemini_model = None, clock = 100, py_repr = (\<lambda>v. []), unicode_nfkd = (\<lambda>s. s)\<rparr>
     (Preferences ''POST'' (JObj [(''theme'', JStr ''dark''), (''font'', JStr ''large'')]))
     init_db))) = [''theme'', ''font'']"
  unfolding two_preferences
  by (simp add: effects_def writes_def is_write_def db_after_def)

theorem one_call_one_write_witness:
  "ai_calls (effects (handle
     \<lparr>gemini_model = None, clock = 100, py_repr = (\<lambda>v. []), unicode_nfkd = (\<lambda>s. s)\<rparr>
     (POST_save_transcription (JObj [(''text'', JStr ''hello'')])) init_db)) \<le> 1 \<and>
   writes (effects (handle
     \<lparr>gemini_model = None, clock = 100, py_repr = (\<lambda>v. []), unicode_nfkd = (\<lambda>s. s)\<rparr>
     (POST_save_transcription (JObj [(''text'', JStr ''hello'')])) init_db)) \<le> 1 \<and>
   writes (effects (handle
     \<lparr>gemini_model = None, clock = 100, py_repr = (\<lambda>v. []), unicode_nfkd = (\<lambda>s. s)\<rparr>
     (Preferences ''POST'' (JObj [(''theme'', JStr ''dark''), (''font'', JStr ''large'')]))
     init_db)) \<le> 2"
proof -
  let ?E = "\<lparr>gemini_model = None, clock = 100, py_repr = (\<lambda>v. []), unicode_nfkd = (\<lambda>s. s)\<rparr>"
  let ?kvs = "[(''theme'', JStr ''dark''), (''font'', JStr ''large'')]"
  let ?r = "POST_save_transcription (JObj [(''text'', JStr ''hello'')])"
  have a: "\<forall>m d. ?r \<noteq> Preferences m d" by simp
  from one_call_one_write [of ?E ?r init_db "''POST''" ?kvs] a
  have one: "ai_calls (effects (handle ?E ?r init_db)) \<le> 1 \<and>
      writes (effects (handle ?E ?r init_db)) \<le> 1"
    by blast
  from one_call_one_write [of ?E "Preferences ''POST'' (JObj ?kvs)" init_db "''POST''" ?kvs]
  have two: "writes (effects (handle ?E (Preferences ''POST'' (JObj ?kvs)) init_db)) \<le> length ?kvs"
    by blast
  from one two show ?thesis by simp
qed

end
